theory Spec2Isabelle
  imports Main "HOL-Library.Monad_Syntax"
begin

section \<open>JavaScript numbers and values\<close>

text \<open>
  The reader computes with JavaScript numbers. Every number it handles is a file offset, an
  atom size or a byte, so a number is modelled as an integer, or as \<open>NaN\<close>, which the loader
  tests for with \<open>isNaN\<close>. Arithmetic with \<open>NaN\<close> gives \<open>NaN\<close> and every comparison
  with \<open>NaN\<close> is false, as in JavaScript.
\<close>

datatype jsnum = NaN | Num int

instantiation jsnum :: "{plus, minus, ord}"
begin

fun plus_jsnum :: "jsnum \<Rightarrow> jsnum \<Rightarrow> jsnum" where
  "plus_jsnum (Num a) (Num b) = Num (a + b)"
| "plus_jsnum _ _ = NaN"

fun minus_jsnum :: "jsnum \<Rightarrow> jsnum \<Rightarrow> jsnum" where
  "minus_jsnum (Num a) (Num b) = Num (a - b)"
| "minus_jsnum _ _ = NaN"

fun less_jsnum :: "jsnum \<Rightarrow> jsnum \<Rightarrow> bool" where
  "less_jsnum (Num a) (Num b) = (a < b)"
| "less_jsnum _ _ = False"

fun less_eq_jsnum :: "jsnum \<Rightarrow> jsnum \<Rightarrow> bool" where
  "less_eq_jsnum (Num a) (Num b) = (a \<le> b)"
| "less_eq_jsnum _ _ = False"

instance ..

end

text \<open>
  The values stored in the tag object: \<open>undefined\<close>, a number, a string, an array, or an
  object literal with its properties in order.
\<close>

datatype jsval =
    Undefined
  | JNum jsnum
  | JStr string
  | JArray "jsval list"
  | JObj "(string \<times> jsval) list"

text \<open>What a call can throw; the reader itself has no \<open>throw\<close> and no \<open>try\<close>.\<close>

datatype jserror = RangeError | Error string

text \<open>
  The tag object \<open>tag = {}\<close> is a JavaScript object: an assignment \<open>tag[k] = v\<close> replaces the
  value of an existing property in place and appends a new property otherwise.
\<close>

type_synonym tagobj = "(string \<times> jsval) list"

fun setProp :: "tagobj \<Rightarrow> string \<Rightarrow> jsval \<Rightarrow> tagobj" where
  "setProp [] k v = [(k, v)]"
| "setProp ((k', v') # ps) k v = (if k' = k then (k, v) # ps else (k', v') # setProp ps k v)"

section \<open>The byte source\<close>

text \<open>
  \<open>MediaFileReader\<close> is required from another file; \<open>MP4TagReader.js\<close> only calls its
  accessors. A source is therefore the record of what its accessors answer, and every
  statement below holds for all sources. The boolean argument of the integer accessors is
  the flag the reader passes. \<open>getByteAt\<close> answers a value, which is \<open>undefined\<close> where
  the source has no byte. The two accessors that take a length build an array of that
  length and can throw (a negative length is no array length), so they answer an error or
  a result; \<open>getStringWithCharsetAt\<close> stands for the call followed by \<open>toString()\<close>.
\<close>

record MediaFileReader =
  getSize :: jsnum
  getByteAt :: "jsnum \<Rightarrow> jsval"
  getShortAt :: "jsnum \<Rightarrow> bool \<Rightarrow> jsnum"
  getInteger24At :: "jsnum \<Rightarrow> bool \<Rightarrow> jsnum"
  getLongAt :: "jsnum \<Rightarrow> bool \<Rightarrow> jsnum"
  getStringAt :: "jsnum \<Rightarrow> jsnum \<Rightarrow> string"
  getBytesAt :: "jsnum \<Rightarrow> jsnum \<Rightarrow> jserror + jsval list"
  getStringWithCharsetAt :: "jsnum \<Rightarrow> jsnum \<Rightarrow> string \<Rightarrow> jserror + string"

section \<open>The static tables\<close>

text \<open>
  \<open>TYPES\<close> is indexed with the class code, a number, which JavaScript turns into the
  property names \<open>"0"\<close>, \<open>"1"\<close>, \<open>"13"\<close>, \<open>"14"\<close>, \<open>"21"\<close>; any other code finds nothing.
\<close>

definition TYPES :: "jsnum \<Rightarrow> string option" where
  "TYPES klass =
     (if klass = Num 0 then Some ''uint8''
      else if klass = Num 1 then Some ''text''
      else if klass = Num 13 then Some ''jpeg''
      else if klass = Num 14 then Some ''png''
      else if klass = Num 21 then Some ''uint8''
      else None)"

text \<open>
  \<open>getStringAt\<close> makes one character of each byte, so the copyright sign that starts many
  atom names is the single character with code \<open>0xA9\<close>.
\<close>

definition copyright_sign :: char where
  "copyright_sign = CHR 0xA9"

definition ATOMS :: "string \<Rightarrow> string list option" where
  "ATOMS = map_of
     [(copyright_sign # ''alb'', [''album'']),
      (copyright_sign # ''art'', [''artist'']),
      (copyright_sign # ''ART'', [''artist'']),
      (''aART'', [''artist'']),
      (copyright_sign # ''day'', [''year'']),
      (copyright_sign # ''nam'', [''title'']),
      (copyright_sign # ''gen'', [''genre'']),
      (''trkn'', [''track'']),
      (copyright_sign # ''wrt'', [''composer'']),
      (copyright_sign # ''too'', [''encoder'']),
      (''cprt'', [''copyright'']),
      (''covr'', [''picture'']),
      (copyright_sign # ''grp'', [''grouping'']),
      (''keyw'', [''keyword'']),
      (copyright_sign # ''lyr'', [''lyrics'']),
      (copyright_sign # ''cmt'', [''comment'']),
      (''tmpo'', [''tempo'']),
      (''cpil'', [''compilation'']),
      (''disk'', [''disc''])]"

section \<open>Atom names\<close>

definition isContainerAtom :: "string \<Rightarrow> bool" where
  "isContainerAtom atomName = (atomName \<in> set [''moov'', ''udta'', ''meta'', ''ilst''])"

definition canReadAtom :: "string \<Rightarrow> bool" where
  "canReadAtom atomName = (atomName \<noteq> ''----'')"

text \<open>
  \<open>parentAtomFullName\<close> is a string or \<open>undefined\<close> (\<open>None\<close>); both \<open>undefined\<close> and the
  empty string are falsy. \<open>fullName\<close> is the expression
  \<open>(parentAtomFullName ? parentAtomFullName+"." : "") + atomName\<close>.
\<close>

definition truthy :: "string option \<Rightarrow> bool" where
  "truthy s = (case s of None \<Rightarrow> False | Some t \<Rightarrow> t \<noteq> [])"

definition fullName :: "string option \<Rightarrow> string \<Rightarrow> string" where
  "fullName parentAtomFullName atomName =
     (if truthy parentAtomFullName then the parentAtomFullName @ ''.'' else '''') @ atomName"

section \<open>The Value Decoder\<close>

text \<open>
  \<open>readValueAtom\<close> is the body of the branch of \<open>_readAtom\<close> taken for a value atom under
  the metadata path (from \<open>var klass\<close> to the assignments to \<open>tag\<close>). It answers the tag
  object after the assignments, or the error an accessor threw: then no assignment is made
  and the error leaves \<open>_readAtom\<close>. A \<open>switch\<close> on a type that matches no case leaves
  \<open>atomData\<close> undefined, and the assignment still creates the property.
\<close>

definition readValueAtom ::
  "tagobj \<Rightarrow> MediaFileReader \<Rightarrow> jsnum \<Rightarrow> jsnum \<Rightarrow> string \<Rightarrow> jserror + tagobj" where
  "readValueAtom tag data seek atomSize atomName =
     (let klass = getInteger24At data (seek + Num 16 + Num 1) True;
          atom = ATOMS atomName;
          type = TYPES klass
      in if atomName = ''trkn'' then
           Inr (setProp (setProp tag atomName (getByteAt data (seek + Num 16 + Num 11)))
                  ''count'' (getByteAt data (seek + Num 16 + Num 13)))
         else
           let atomHeader = Num 16 + Num 4 + Num 4;
               dataStart = seek + atomHeader;
               dataLength = atomSize - atomHeader;
               atomData =
                 (if type = Some ''text'' then
                    (case getStringWithCharsetAt data dataStart dataLength ''utf-8'' of
                       Inl thrown \<Rightarrow> Inl thrown
                     | Inr text \<Rightarrow> Inr (JStr text))
                  else if type = Some ''uint8'' then
                    Inr (JNum (getShortAt data dataStart False))
                  else if type = Some ''jpeg'' \<or> type = Some ''png'' then
                    (case getBytesAt data dataStart dataLength of
                       Inl thrown \<Rightarrow> Inl thrown
                     | Inr bytes \<Rightarrow>
                         Inr (JObj [(''format'', JStr (''image/'' @ the type)),
                                    (''data'', JArray bytes)]))
                  else Inr Undefined)
           in case atomData of
                Inl thrown \<Rightarrow> Inl thrown
              | Inr decoded \<Rightarrow>
                  Inr (if atomName = copyright_sign # ''cmt'' then
                         setProp tag atomName (JObj [(''text'', decoded)])
                       else setProp tag atomName decoded))"

text \<open>
  \<open>readAtom_while\<close> is the \<open>while\<close> loop of \<open>_readAtom\<close> with the loop variable \<open>seek\<close> as
  its last argument. The tag object is mutated in place by the source and returned here;
  the result is that object, or the error thrown on the way. For a container the source
  calls \<open>_readAtom\<close> and returns; that call starts the loop of the child level at
  \<open>seek = offset\<close>, which is the first recursive call below. The \<open>indent\<close> argument only
  serves a commented-out log line and is left out. The loop need not terminate on an
  arbitrary source, so the result is an option and \<open>None\<close> stands for a walk that never
  returns.
\<close>

partial_function (option) readAtom_while ::
  "tagobj \<Rightarrow> MediaFileReader \<Rightarrow> jsnum \<Rightarrow> jsnum \<Rightarrow> string option \<Rightarrow> jsnum
     \<Rightarrow> (jserror + tagobj) option"
where
  "readAtom_while tag data offset length' parentAtomFullName seek =
     (if seek < offset + length' then
        let atomSize = getLongAt data seek True in
        if atomSize = Num 0 then Some (Inr tag)
        else
          let atomName = getStringAt data (seek + Num 4) (Num 4) in
          if isContainerAtom atomName then
            let seek' = (if atomName = ''meta'' then seek + Num 4 else seek);
                atomFullName = fullName parentAtomFullName atomName
            in readAtom_while tag data (seek' + Num 8) (atomSize - Num 8) (Some atomFullName)
                 (seek' + Num 8)
          else
            (case (if parentAtomFullName = Some ''moov.udta.meta.ilst'' \<and> canReadAtom atomName
                   then readValueAtom tag data seek atomSize atomName
                   else Inr tag) of
               Inl thrown \<Rightarrow> Some (Inl thrown)
             | Inr tag' \<Rightarrow>
                 readAtom_while tag' data offset length' parentAtomFullName (seek + atomSize))
      else Some (Inr tag))"

declare readAtom_while.simps [code]

definition readAtom ::
  "tagobj \<Rightarrow> MediaFileReader \<Rightarrow> jsnum \<Rightarrow> jsnum \<Rightarrow> string option \<Rightarrow> (jserror + tagobj) option"
where
  "readAtom tag data offset length' parentAtomFullName =
     readAtom_while tag data offset length' parentAtomFullName offset"

definition parseData :: "MediaFileReader \<Rightarrow> string list option \<Rightarrow> (jserror + tagobj) option" where
  "parseData data tags = readAtom [] data (Num 0) (getSize data) None"

section \<open>The Tree Loader\<close>

text \<open>
  \<open>loadRange\<close> belongs to the byte source as well. It is a parameter here: asked for a range
  it either fails with an error, and the reader hands the error to \<open>callbacks.onError\<close>, or
  it succeeds and the source, now holding the bytes, answers as \<open>loaded\<close>. The loader's
  result is the list of ranges it requested, in order, and the callback it ended with.
\<close>

datatype outcome = OnSuccess | OnError string

type_synonym byteRange = "jsnum \<times> jsnum"

type_synonym loadRangeFn = "MediaFileReader \<Rightarrow> byteRange \<Rightarrow> string + MediaFileReader"

partial_function (option) loadAtom ::
  "loadRangeFn \<Rightarrow> MediaFileReader \<Rightarrow> jsnum \<Rightarrow> string \<Rightarrow> (byteRange list \<times> outcome) option"
where
  "loadAtom loadRange mediaFileReader offset parentAtomFullName =
     (if getSize mediaFileReader \<le> offset then Some ([], OnSuccess)
      else
        let atomSize = getLongAt mediaFileReader offset True in
        if atomSize = Num 0 \<or> atomSize = NaN then Some ([], OnSuccess)
        else
          let atomName = getStringAt mediaFileReader (offset + Num 4) (Num 4) in
          if isContainerAtom atomName then
            let offset' = (if atomName = ''meta'' then offset + Num 4 else offset);
                atomFullName = fullName (Some parentAtomFullName) atomName;
                rng = (offset' + Num 8, offset' + Num 8 + Num 8)
            in (case loadRange mediaFileReader rng of
                  Inl err \<Rightarrow> Some ([rng], OnError err)
                | Inr loaded \<Rightarrow>
                    do { (ranges, result) \<leftarrow>
                           loadAtom loadRange loaded (offset' + Num 8) atomFullName;
                         Some (rng # ranges, result) })
          else
            let shouldReadAtom = (parentAtomFullName = ''moov.udta.meta.ilst'');
                rng = (offset + (if shouldReadAtom then Num 0 else atomSize),
                       offset + atomSize + Num 8)
            in (case loadRange mediaFileReader rng of
                  Inl err \<Rightarrow> Some ([rng], OnError err)
                | Inr loaded \<Rightarrow>
                    do { (ranges, result) \<leftarrow>
                           loadAtom loadRange loaded (offset + atomSize) parentAtomFullName;
                         Some (rng # ranges, result) }))"

declare loadAtom.simps [code]

definition loadData ::
  "loadRangeFn \<Rightarrow> MediaFileReader \<Rightarrow> (byteRange list \<times> outcome) option" where
  "loadData loadRange mediaFileReader =
     (let rng = (Num 0, Num 7) in
      case loadRange mediaFileReader rng of
        Inl err \<Rightarrow> Some ([rng], OnError err)
      | Inr loaded \<Rightarrow>
          do { (ranges, result) \<leftarrow> loadAtom loadRange loaded (Num 0) [];
               Some (rng # ranges, result) })"

section \<open>The walk of one level up to its first container\<close>

text \<open>
  \<open>valueAtomsUpTo data offset length' parent (tag, seek) (tag', seek')\<close>: the loop of one
  level, standing at \<open>seek\<close> with tag object \<open>tag\<close>, passes value atoms only (each inside the
  level, of non-zero size, read without an error) and then stands at \<open>seek'\<close> with tag
  object \<open>tag'\<close>.
\<close>

inductive valueAtomsUpTo ::
  "MediaFileReader \<Rightarrow> jsnum \<Rightarrow> jsnum \<Rightarrow> string option \<Rightarrow> tagobj \<times> jsnum \<Rightarrow> tagobj \<times> jsnum \<Rightarrow> bool"
  for data :: MediaFileReader and offset :: jsnum and length' :: jsnum
    and parentAtomFullName :: "string option"
where
  stand: "valueAtomsUpTo data offset length' parentAtomFullName (tag, seek) (tag, seek)"
| pass: "seek < offset + length' \<Longrightarrow>
         getLongAt data seek True \<noteq> Num 0 \<Longrightarrow>
         \<not> isContainerAtom (getStringAt data (seek + Num 4) (Num 4)) \<Longrightarrow>
         (if parentAtomFullName = Some ''moov.udta.meta.ilst'' \<and>
             canReadAtom (getStringAt data (seek + Num 4) (Num 4))
          then readValueAtom tag data seek (getLongAt data seek True)
                 (getStringAt data (seek + Num 4) (Num 4))
          else Inr tag) = Inr stored \<Longrightarrow>
         valueAtomsUpTo data offset length' parentAtomFullName
           (stored, seek + getLongAt data seek True) later \<Longrightarrow>
         valueAtomsUpTo data offset length' parentAtomFullName (tag, seek) later"

section \<open>The 16-bit accessor\<close>

text \<open>
  Modelled from the spec: the accessor \<open>readUint16At(offset, bigEndianFlag)\<close> of the byte
  source (section 6 of the specification), which the reader calls as \<open>getShortAt\<close> and whose
  code is in \<open>MediaFileReader\<close>, not in the source file. It answers the unsigned 16-bit
  integer made of the byte at \<open>offset\<close> and the byte at \<open>offset + 1\<close>, the first being the
  high byte when the flag is set and the low byte otherwise. \<open>readUint16At first second flag\<close>
  is that integer when the two bytes are \<open>first\<close> and \<open>second\<close>.
\<close>

definition readUint16At :: "int \<Rightarrow> int \<Rightarrow> bool \<Rightarrow> int" where
  "readUint16At first second bigEndianFlag =
     (if bigEndianFlag then first * 256 + second else second * 256 + first)"

section \<open>Example sources\<close>

text \<open>
  An example source is given by what its accessors answer at the offsets the reader asks
  for: the size and the name of each atom, the class code, single bytes and decoded text of
  value atoms. A size, class or name that is not listed reads as zero or as the empty
  string. A byte that is not listed is zero inside the file and \<open>undefined\<close> outside it.
  The short accessor reads two bytes through \<open>readUint16At\<close> and answers \<open>NaN\<close> where one
  of them is \<open>undefined\<close>. The accessors that take a
  length throw \<open>RangeError\<close> when the length is negative or not a number, as the
  construction of an array of that length does.
\<close>

definition numTable :: "(int \<times> int) list \<Rightarrow> jsnum \<Rightarrow> jsnum" where
  "numTable table offset =
     (case offset of NaN \<Rightarrow> NaN
      | Num i \<Rightarrow> (case map_of table i of None \<Rightarrow> Num 0 | Some v \<Rightarrow> Num v))"

definition strTable :: "(int \<times> string) list \<Rightarrow> jsnum \<Rightarrow> string" where
  "strTable table offset =
     (case offset of NaN \<Rightarrow> []
      | Num i \<Rightarrow> (case map_of table i of None \<Rightarrow> [] | Some v \<Rightarrow> v))"

definition byteTable :: "int \<Rightarrow> (int \<times> int) list \<Rightarrow> jsnum \<Rightarrow> jsval" where
  "byteTable fileSize table offset =
     (case offset of NaN \<Rightarrow> Undefined
      | Num i \<Rightarrow>
          if 0 \<le> i \<and> i < fileSize then JNum (numTable table (Num i)) else Undefined)"

definition shortTable :: "int \<Rightarrow> (int \<times> int) list \<Rightarrow> jsnum \<Rightarrow> bool \<Rightarrow> jsnum" where
  "shortTable fileSize table offset bigEndianFlag =
     (case byteTable fileSize table offset of
        JNum (Num first) \<Rightarrow>
          (case byteTable fileSize table (offset + Num 1) of
             JNum (Num second) \<Rightarrow> Num (readUint16At first second bigEndianFlag)
           | _ \<Rightarrow> NaN)
      | _ \<Rightarrow> NaN)"

definition withLength :: "jsnum \<Rightarrow> (int \<Rightarrow> 'a) \<Rightarrow> jserror + 'a" where
  "withLength n build =
     (case n of NaN \<Rightarrow> Inl RangeError
      | Num k \<Rightarrow> if k < 0 then Inl RangeError else Inr (build k))"

definition tableReader ::
  "int \<Rightarrow> (int \<times> int) list \<Rightarrow> (int \<times> string) list \<Rightarrow> (int \<times> int) list \<Rightarrow> (int \<times> int) list
     \<Rightarrow> (int \<times> string) list \<Rightarrow> MediaFileReader" where
  "tableReader fileSize sizes names classes bytes texts =
     \<lparr> getSize = Num fileSize,
       getByteAt = byteTable fileSize bytes,
       getShortAt = shortTable fileSize bytes,
       getInteger24At = (\<lambda>offset flag. numTable classes offset),
       getLongAt = (\<lambda>offset flag. numTable sizes offset),
       getStringAt = (\<lambda>offset n. strTable names offset),
       getBytesAt = (\<lambda>offset n.
         withLength n (\<lambda>k. map (\<lambda>j. byteTable fileSize bytes (offset + Num j)) [0..k - 1])),
       getStringWithCharsetAt = (\<lambda>offset n charset.
         withLength n (\<lambda>k. strTable texts offset)) \<rparr>"

text \<open>
  \<open>file1\<close>, 314 bytes: \<open>ftyp\<close> at 0 (16 bytes); \<open>moov\<close> at 16 (190 bytes, so it ends at 206)
  holding \<open>udta\<close> at 24, \<open>meta\<close> at 32, \<open>ilst\<close> at 44 and, in \<open>ilst\<close>, the value atoms
  \<open>(c)nam\<close> at 52 (text "Song"), \<open>trkn\<close> at 80 (track 5 of 12), \<open>tmpo\<close> at 112 (class 21,
  payload bytes 0 and 120), \<open>xxxx\<close> at 138 (text "Demo") and \<open>----\<close> at 166; then, at the
  top level again, \<open>mdat\<close> at 206 (108 bytes).
\<close>

definition file1 :: MediaFileReader where
  "file1 = tableReader 314
     [(0, 16), (16, 190), (24, 182), (32, 174), (44, 162), (52, 28), (80, 32), (112, 26),
      (138, 28), (166, 40), (206, 108)]
     [(4, ''ftyp''), (20, ''moov''), (28, ''udta''), (36, ''meta''), (48, ''ilst''),
      (56, copyright_sign # ''nam''), (84, ''trkn''), (116, ''tmpo''), (142, ''xxxx''),
      (170, ''----''), (210, ''mdat'')]
     [(69, 1), (97, 0), (129, 21), (155, 1), (183, 1)]
     [(107, 5), (109, 12), (136, 0), (137, 120)]
     [(76, ''Song''), (162, ''Demo''), (190, ''custom'')]"

text \<open>
  \<open>file2\<close>, 145 bytes: \<open>ftyp\<close> at 0, a first \<open>moov\<close> at 16 (64 bytes) whose \<open>ilst\<close> holds
  \<open>(c)nam\<close> = "Song", and a second \<open>moov\<close> at 80 (65 bytes) whose \<open>ilst\<close> holds
  \<open>(c)alb\<close> = "Album".
\<close>

definition file2 :: MediaFileReader where
  "file2 = tableReader 145
     [(0, 16), (16, 64), (24, 56), (32, 48), (44, 36), (52, 28),
      (80, 65), (88, 57), (96, 49), (108, 37), (116, 29)]
     [(4, ''ftyp''), (20, ''moov''), (28, ''udta''), (36, ''meta''), (48, ''ilst''),
      (56, copyright_sign # ''nam''),
      (84, ''moov''), (92, ''udta''), (100, ''meta''), (112, ''ilst''),
      (120, copyright_sign # ''alb'')]
     [(69, 1), (133, 1)]
     []
     [(76, ''Song''), (140, ''Album'')]"

text \<open>
  \<open>file3\<close>, 64 bytes: \<open>moov\<close> at 0, \<open>udta\<close> at 8, a \<open>meta\<close> at 16 of declared size 12 (its
  header and \<open>next_item_id\<close> only, so it ends at 28), and after it, still inside \<open>udta\<close>, an
  \<open>ilst\<close> at 28 holding \<open>(c)nam\<close> = "Song". \<open>file3_free\<close> is the same source but for the
  name of the atom at 28, which is \<open>free\<close>.
\<close>

definition file3 :: MediaFileReader where
  "file3 = tableReader 64
     [(0, 64), (8, 56), (16, 12), (28, 36), (36, 28)]
     [(4, ''moov''), (12, ''udta''), (20, ''meta''), (32, ''ilst''), (40, copyright_sign # ''nam'')]
     [(53, 1)]
     []
     [(60, ''Song'')]"

definition file3_free :: MediaFileReader where
  "file3_free = file3 \<lparr> getStringAt :=
     (\<lambda>offset n. if offset = Num 32 then ''free'' else getStringAt file3 offset n) \<rparr>"

text \<open>
  \<open>file4\<close>, 32 bytes: \<open>ftyp\<close> at 0 followed by zero bytes, so the atom at 16 has size 0.
  \<open>file5\<close> is the same source when the size at any offset but 0 reads as \<open>NaN\<close>.
\<close>

definition file4 :: MediaFileReader where
  "file4 = tableReader 32 [(0, 16)] [(4, ''ftyp'')] [] [] []"

definition file5 :: MediaFileReader where
  "file5 = file4 \<lparr> getLongAt := (\<lambda>offset flag. if offset = Num 0 then Num 16 else NaN) \<rparr>"

text \<open>
  \<open>file6\<close>, 68 bytes: \<open>moov\<close>, \<open>udta\<close>, \<open>meta\<close>, \<open>ilst\<close> and in it one \<open>trkn\<close> atom at 36
  whose bytes at 36 + 16 + 11 and 36 + 16 + 13 are 5 and 12.
\<close>

definition file6 :: MediaFileReader where
  "file6 = tableReader 68
     [(0, 68), (8, 60), (16, 52), (28, 40), (36, 32)]
     [(4, ''moov''), (12, ''udta''), (20, ''meta''), (32, ''ilst''), (40, ''trkn'')]
     [(53, 0)]
     [(63, 5), (65, 12)]
     []"

text \<open>
  \<open>file7\<close>, 88 bytes: \<open>ftyp\<close> at 0, an empty \<open>moov\<close> at 16 (8 bytes, the header only) and a
  second \<open>moov\<close> at 24 (64 bytes) whose \<open>ilst\<close> holds \<open>(c)nam\<close> = "Song".
\<close>

definition file7 :: MediaFileReader where
  "file7 = tableReader 88
     [(0, 16), (16, 8), (24, 64), (32, 56), (40, 48), (52, 36), (60, 28)]
     [(4, ''ftyp''), (20, ''moov''), (28, ''moov''), (36, ''udta''), (44, ''meta''),
      (56, ''ilst''), (64, copyright_sign # ''nam'')]
     [(77, 1)]
     []
     [(84, ''Song'')]"

text \<open>
  \<open>file8\<close>, 68 bytes: \<open>moov\<close> at 0, \<open>udta\<close> at 8, a \<open>meta\<close> at 16 of declared size 12 that
  ends at 28, four bytes at 28 that hold the size 4, and an \<open>ilst\<close> at 32 (36 bytes) holding
  \<open>(c)nam\<close> = "Song". The four bytes at 28 read as an atom of size 4 whose name is the
  size field of the \<open>ilst\<close>, the bytes 0, 0, 0 and 36.
\<close>

definition file8 :: MediaFileReader where
  "file8 = tableReader 68
     [(0, 68), (8, 60), (16, 12), (28, 4), (32, 36), (40, 28)]
     [(4, ''moov''), (12, ''udta''), (20, ''meta''),
      (32, [CHR 0x00, CHR 0x00, CHR 0x00, CHR 0x24]),
      (36, ''ilst''), (44, copyright_sign # ''nam'')]
     [(57, 1)]
     []
     [(64, ''Song'')]"


text \<open>Two range loaders: one that always succeeds and one that always fails.\<close>

definition alwaysLoaded :: loadRangeFn where
  "alwaysLoaded mediaFileReader rng = Inr mediaFileReader"

definition neverLoaded :: loadRangeFn where
  "neverLoaded mediaFileReader rng = Inl ''load failed''"

section \<open>Properties of the tag object\<close>

lemma keys_setProp: "fst ` set (setProp tag k v) = insert k (fst ` set tag)"
  by (induction tag k v rule: setProp.induct) auto

lemma map_of_setProp: "map_of (setProp tag k v) = (map_of tag)(k \<mapsto> v)"
  by (induction tag k v rule: setProp.induct) (auto simp: fun_eq_iff)

lemma readValueAtom_stored:
  "readValueAtom tag data seek atomSize atomName = Inr stored \<Longrightarrow>
   (\<exists>v. stored = setProp tag atomName v) \<or>
   (atomName = ''trkn'' \<and> (\<exists>v w. stored = setProp (setProp tag ''trkn'' v) ''count'' w))"
  by (auto simp: readValueAtom_def Let_def split: if_splits sum.splits)

lemma keys_readValueAtom:
  "readValueAtom tag data seek atomSize atomName = Inr stored \<Longrightarrow>
   atomName \<noteq> ''----'' \<Longrightarrow> ''----'' \<notin> fst ` set tag \<Longrightarrow> ''----'' \<notin> fst ` set stored"
  by (drule readValueAtom_stored) (elim disjE exE conjE; simp add: keys_setProp)

lemma keys_readValueAtom_grow:
  "readValueAtom tag data seek atomSize atomName = Inr stored \<Longrightarrow>
   fst ` set tag \<subseteq> fst ` set stored"
  by (drule readValueAtom_stored) (elim disjE exE conjE; simp add: keys_setProp; blast)

lemma fullName_meta_not_ilst: "fullName parentAtomFullName ''meta'' \<noteq> ''moov.udta.meta.ilst''"
proof
  assume "fullName parentAtomFullName ''meta'' = ''moov.udta.meta.ilst''"
  then have "last (fullName parentAtomFullName ''meta'') = last ''moov.udta.meta.ilst''"
    by simp
  then show False
    by (simp add: fullName_def)
qed

section \<open>One step of the decoder's loop\<close>

lemma readAtom_while_exit:
  "\<not> seek < offset + length' \<Longrightarrow>
   readAtom_while tag data offset length' parentAtomFullName seek = Some (Inr tag)"
  by (subst readAtom_while.simps) simp

lemma readAtom_while_zero:
  "getLongAt data seek True = Num 0 \<Longrightarrow>
   readAtom_while tag data offset length' parentAtomFullName seek = Some (Inr tag)"
  by (subst readAtom_while.simps) simp

lemma readAtom_while_container:
  assumes "seek < offset + length'"
    and "getLongAt data seek True \<noteq> Num 0"
    and "isContainerAtom (getStringAt data (seek + Num 4) (Num 4))"
  shows "readAtom_while tag data offset length' parentAtomFullName seek =
         readAtom tag data
           ((if getStringAt data (seek + Num 4) (Num 4) = ''meta'' then seek + Num 4 else seek)
              + Num 8)
           (getLongAt data seek True - Num 8)
           (Some (fullName parentAtomFullName (getStringAt data (seek + Num 4) (Num 4))))"
  using assms by (subst readAtom_while.simps) (simp add: Let_def readAtom_def)

lemma readAtom_while_value:
  assumes "seek < offset + length'"
    and "getLongAt data seek True \<noteq> Num 0"
    and "\<not> isContainerAtom (getStringAt data (seek + Num 4) (Num 4))"
  shows "readAtom_while tag data offset length' parentAtomFullName seek =
         (case (if parentAtomFullName = Some ''moov.udta.meta.ilst'' \<and>
                   canReadAtom (getStringAt data (seek + Num 4) (Num 4))
                then readValueAtom tag data seek (getLongAt data seek True)
                       (getStringAt data (seek + Num 4) (Num 4))
                else Inr tag) of
            Inl thrown \<Rightarrow> Some (Inl thrown)
          | Inr tag' \<Rightarrow>
              readAtom_while tag' data offset length' parentAtomFullName
                (seek + getLongAt data seek True))"
  using assms by (subst readAtom_while.simps) (simp add: Let_def)

text \<open>A value atom under the metadata path that is read: the store, then the next atom.\<close>

lemma readAtom_while_read:
  assumes "seek < offset + length'"
    and "getLongAt data seek True \<noteq> Num 0"
    and "getStringAt data (seek + Num 4) (Num 4) = atomName"
    and "\<not> isContainerAtom atomName"
    and "atomName \<noteq> ''----''"
  shows "readAtom_while tag data offset length' (Some ''moov.udta.meta.ilst'') seek =
         (case readValueAtom tag data seek (getLongAt data seek True) atomName of
            Inl thrown \<Rightarrow> Some (Inl thrown)
          | Inr tag' \<Rightarrow>
              readAtom_while tag' data offset length' (Some ''moov.udta.meta.ilst'')
                (seek + getLongAt data seek True))"
proof -
  have leaf: "\<not> isContainerAtom (getStringAt data (seek + Num 4) (Num 4))"
    using assms(3,4) by simp
  show ?thesis
    by (subst readAtom_while_value [OF assms(1,2) leaf]) (simp add: assms(3,5) canReadAtom_def)
qed

section \<open>Invariants of a whole walk\<close>

text \<open>
  A relation between tag objects that is reflexive, transitive and holds across every store
  of a value atom holds between the tag object a walk starts with and the one it returns.
  The proof is by induction over the recursion of the loop.
\<close>

lemma readAtom_while_invariant:
  assumes run: "readAtom_while tag data offset length' parentAtomFullName seek = Some (Inr out)"
    and same: "\<And>t. Q t t"
    and chain: "\<And>t u v. Q t u \<Longrightarrow> Q u v \<Longrightarrow> Q t v"
    and store: "\<And>t d s z n stored.
      readValueAtom t d s z n = Inr stored \<Longrightarrow> canReadAtom n \<Longrightarrow> Q t stored"
  shows "Q tag out"
proof -
  have "\<forall>out. result = Inr out \<longrightarrow> Q tag out"
    if "readAtom_while tag data offset length' parentAtomFullName seek = Some result" for result
  proof (rule readAtom_while.raw_induct
      [where P = "\<lambda>tag data offset length' parentAtomFullName seek result.
                    \<forall>out. result = Inr out \<longrightarrow> Q tag out", OF _ that])
    fix f tag data offset length' parentAtomFullName seek result
    assume IH: "\<And>tag data offset length' parentAtomFullName seek result.
        f tag data offset length' parentAtomFullName seek = Some result \<Longrightarrow>
        \<forall>out. result = Inr out \<longrightarrow> Q tag out"
      and body: "(if seek < offset + length' then
          let atomSize = getLongAt data seek True in
          if atomSize = Num 0 then Some (Inr tag)
          else
            let atomName = getStringAt data (seek + Num 4) (Num 4) in
            if isContainerAtom atomName then
              let seek' = (if atomName = ''meta'' then seek + Num 4 else seek);
                  atomFullName = fullName parentAtomFullName atomName
              in f tag data (seek' + Num 8) (atomSize - Num 8) (Some atomFullName)
                   (seek' + Num 8)
            else
              (case (if parentAtomFullName = Some ''moov.udta.meta.ilst'' \<and> canReadAtom atomName
                     then readValueAtom tag data seek atomSize atomName
                     else Inr tag) of
                 Inl thrown \<Rightarrow> Some (Inl thrown)
               | Inr tag' \<Rightarrow>
                   f tag' data offset length' parentAtomFullName (seek + atomSize))
        else Some (Inr tag)) = Some result"
    show "\<forall>out. result = Inr out \<longrightarrow> Q tag out"
    proof (intro allI impI)
      fix out
      assume returned: "result = Inr out"
      show "Q tag out"
      proof (cases "seek < offset + length' \<and> getLongAt data seek True \<noteq> Num 0")
        case False
        with body returned have "out = tag" by (auto simp: Let_def split: if_splits)
        then show ?thesis by (simp add: same)
      next
        case True
        show ?thesis
        proof (cases "isContainerAtom (getStringAt data (seek + Num 4) (Num 4))")
          case container: True
          with True body obtain offset2 length2 path2 where
            "f tag data offset2 length2 path2 offset2 = Some result"
            by (auto simp: Let_def split: if_splits)
          from IH [OF this] returned show ?thesis by simp
        next
          case leaf: False
          let ?read = "parentAtomFullName = Some ''moov.udta.meta.ilst'' \<and>
                       canReadAtom (getStringAt data (seek + Num 4) (Num 4))"
          let ?step = "if ?read
                then readValueAtom tag data seek (getLongAt data seek True)
                       (getStringAt data (seek + Num 4) (Num 4))
                else Inr tag"
          from True leaf body returned obtain stored where
            stored: "?step = Inr stored"
            and rest: "f stored data offset length' parentAtomFullName
                         (seek + getLongAt data seek True) = Some result"
            by (cases ?step) (auto simp: Let_def)
          from stored have "Q tag stored"
            by (cases ?read) (auto simp: same intro: store)
          moreover from IH [OF rest] returned have "Q stored out" by simp
          ultimately show ?thesis by (rule chain)
        qed
      qed
    qed
  qed
  from this [OF run] show ?thesis by simp
qed

lemma readAtom_while_unsupported:
  assumes run: "readAtom_while tag data offset length' parentAtomFullName seek = Some (Inr out)"
  shows "''----'' \<notin> fst ` set tag \<longrightarrow> ''----'' \<notin> fst ` set out"
  by (rule readAtom_while_invariant
        [OF run, where Q = "\<lambda>t u. ''----'' \<notin> fst ` set t \<longrightarrow> ''----'' \<notin> fst ` set u"])
     (auto simp: canReadAtom_def dest: keys_readValueAtom)

lemma readAtom_while_keys:
  assumes run: "readAtom_while tag data offset length' parentAtomFullName seek = Some (Inr out)"
  shows "fst ` set tag \<subseteq> fst ` set out"
  by (rule readAtom_while_invariant [OF run, where Q = "\<lambda>t u. fst ` set t \<subseteq> fst ` set u"])
     (blast dest: keys_readValueAtom_grow)+

section \<open>The decoder returns\<close>

text \<open>
  On a source whose size field is never negative and reads as zero from some offset on, the
  loop returns from every call, with a tag object or with the error of an accessor: each
  step moves \<open>seek\<close> forward.
\<close>

lemma readAtom_while_returns:
  assumes pad: "\<forall>i\<ge>limit. getLongAt data (Num i) True = Num 0"
    and sized: "\<forall>i n. getLongAt data (Num i) True = Num n \<longrightarrow> 0 \<le> n"
  shows "\<exists>result. readAtom_while tag data offset length' parentAtomFullName seek = Some result"
proof (cases seek)
  case NaN
  then show ?thesis by (simp add: readAtom_while_exit)
next
  case (Num s)
  have "\<exists>result. readAtom_while tag data offset length' parentAtomFullName (Num s) = Some result"
  proof (induction "nat (limit - s)" arbitrary: s tag offset length' parentAtomFullName
      rule: less_induct)
    case less
    show ?case
    proof (cases "Num s < offset + length'")
      case False
      then show ?thesis by (simp add: readAtom_while_exit)
    next
      case inside: True
      show ?thesis
      proof (cases "getLongAt data (Num s) True = Num 0")
        case True
        then show ?thesis by (simp add: readAtom_while_zero)
      next
        case size: False
        with pad have below: "s < limit" by (meson not_le)
        show ?thesis
        proof (cases "isContainerAtom (getStringAt data (Num s + Num 4) (Num 4))")
          case True
          have "\<exists>result. readAtom_while tag data (Num (s + k)) len' path (Num (s + k)) =
                  Some result"
            if "0 < k" for k len' path
            using that below by (intro less.hyps) simp
          from this [of 8] this [of 12] show ?thesis
            by (subst readAtom_while_container [OF inside size True])
               (simp add: readAtom_def add.commute)
        next
          case leaf: False
          show ?thesis
          proof (cases "getLongAt data (Num s) True")
            case NaN
            then show ?thesis
              by (subst readAtom_while_value [OF inside size leaf])
                 (simp add: readAtom_while_exit split: sum.splits)
          next
            case (Num n)
            with size sized have "0 < n" by (metis jsnum.inject le_less)
            then have "\<exists>result. readAtom_while tag' data offset length' parentAtomFullName
                          (Num (s + n)) = Some result" for tag'
              using below by (intro less.hyps) simp
            with Num show ?thesis
              by (subst readAtom_while_value [OF inside size leaf])
                 (auto split: sum.splits)
          qed
        qed
      qed
    qed
  qed
  with Num show ?thesis by simp
qed

section \<open>One step of the loader\<close>

lemma loadAtom_value:
  assumes "\<not> getSize mediaFileReader \<le> offset"
    and "getLongAt mediaFileReader offset True \<noteq> Num 0"
    and "getLongAt mediaFileReader offset True \<noteq> NaN"
    and "\<not> isContainerAtom (getStringAt mediaFileReader (offset + Num 4) (Num 4))"
  shows "loadAtom loadRange mediaFileReader offset parentAtomFullName =
         (let atomSize = getLongAt mediaFileReader offset True;
              rng = (offset + (if parentAtomFullName = ''moov.udta.meta.ilst'' then Num 0
                               else atomSize),
                     offset + atomSize + Num 8)
          in case loadRange mediaFileReader rng of
               Inl err \<Rightarrow> Some ([rng], OnError err)
             | Inr loaded \<Rightarrow>
                 do { (ranges, result) \<leftarrow>
                        loadAtom loadRange loaded (offset + atomSize) parentAtomFullName;
                      Some (rng # ranges, result) })"
  using assms by (subst loadAtom.simps) (simp add: Let_def)

lemma loadAtom_container:
  assumes "\<not> getSize mediaFileReader \<le> offset"
    and "getLongAt mediaFileReader offset True \<noteq> Num 0"
    and "getLongAt mediaFileReader offset True \<noteq> NaN"
    and "isContainerAtom (getStringAt mediaFileReader (offset + Num 4) (Num 4))"
  shows "loadAtom loadRange mediaFileReader offset parentAtomFullName =
         (let atomName = getStringAt mediaFileReader (offset + Num 4) (Num 4);
              offset' = (if atomName = ''meta'' then offset + Num 4 else offset);
              rng = (offset' + Num 8, offset' + Num 8 + Num 8)
          in case loadRange mediaFileReader rng of
               Inl err \<Rightarrow> Some ([rng], OnError err)
             | Inr loaded \<Rightarrow>
                 do { (ranges, result) \<leftarrow>
                        loadAtom loadRange loaded (offset' + Num 8)
                          (fullName (Some parentAtomFullName) atomName);
                      Some (rng # ranges, result) })"
  using assms by (subst loadAtom.simps) (simp add: Let_def)

text \<open>
  The loader returns on a source of known size whose size field is never negative, when a
  successful load leaves the answers of the source as they were.
\<close>

lemma loadAtom_returns:
  assumes stable: "\<forall>reader rng loaded. loadRange reader rng = Inr loaded \<longrightarrow> loaded = reader"
    and whole: "getSize mediaFileReader = Num fileSize"
    and sized: "\<forall>i n. getLongAt mediaFileReader (Num i) True = Num n \<longrightarrow> 0 \<le> n"
  shows "\<exists>result. loadAtom loadRange mediaFileReader (Num offset) parentAtomFullName = Some result"
proof (induction "nat (fileSize - offset)" arbitrary: offset parentAtomFullName rule: less_induct)
  case less
  show ?case
  proof (cases "getSize mediaFileReader \<le> Num offset \<or>
      getLongAt mediaFileReader (Num offset) True = Num 0 \<or>
      getLongAt mediaFileReader (Num offset) True = NaN")
    case True
    then show ?thesis by (subst loadAtom.simps) auto
  next
    case False
    then have more: "\<not> getSize mediaFileReader \<le> Num offset"
      and size: "getLongAt mediaFileReader (Num offset) True \<noteq> Num 0"
      and valid: "getLongAt mediaFileReader (Num offset) True \<noteq> NaN"
      by simp_all
    from more whole have below: "offset < fileSize" by simp
    from valid obtain n where n: "getLongAt mediaFileReader (Num offset) True = Num n"
      by (cases "getLongAt mediaFileReader (Num offset) True") simp_all
    with size sized have positive: "0 < n" by (metis jsnum.inject le_less)
    have step: "\<exists>result. loadAtom loadRange mediaFileReader (Num (offset + k)) path = Some result"
      if "0 < k" for k path
      using that below by (intro less.hyps) simp
    have bound: "\<exists>result. (do { (ranges, result) \<leftarrow>
                        loadAtom loadRange mediaFileReader (Num (offset + k)) path;
                      Some (rng # ranges, result) }) = Some result"
      if "0 < k" for k path rng
      using step [OF that, of path] by (auto simp: split_beta)
    have same: "loaded = mediaFileReader"
      if "loadRange mediaFileReader rng = Inr loaded" for rng loaded
      using stable that by blast
    show ?thesis
    proof (cases "isContainerAtom (getStringAt mediaFileReader (Num offset + Num 4) (Num 4))")
      case True
      from bound [of 8] bound [of 12] show ?thesis
        by (subst loadAtom_container [OF more size valid True])
           (auto simp: Let_def add.commute split: sum.splits dest!: same)
    next
      case False
      from bound [OF positive] show ?thesis
        by (subst loadAtom_value [OF more size valid False])
           (auto simp: Let_def n split: sum.splits dest!: same)
    qed
  qed
qed

section \<open>Walking value atoms\<close>

lemma valueAtomsUpTo_readAtom_while:
  "valueAtomsUpTo data offset length' parentAtomFullName start later \<Longrightarrow>
   readAtom_while (fst start) data offset length' parentAtomFullName (snd start) =
   readAtom_while (fst later) data offset length' parentAtomFullName (snd later)"
proof (induction rule: valueAtomsUpTo.induct)
  case (stand tag seek)
  show ?case by simp
next
  case (pass seek tag stored later)
  from readAtom_while_value [OF pass.hyps(1-3)] pass.hyps(4) pass.IH show ?case by simp
qed

lemma less_extend:
  "seek < offset + length' \<Longrightarrow> 0 \<le> extra \<Longrightarrow> seek < offset + (length' + Num extra)"
  by (cases seek; cases offset; cases length') simp_all

lemma valueAtomsUpTo_extend:
  "valueAtomsUpTo data offset length' parentAtomFullName start later \<Longrightarrow> 0 \<le> extra \<Longrightarrow>
   valueAtomsUpTo data offset (length' + Num extra) parentAtomFullName start later"
proof (induction rule: valueAtomsUpTo.induct)
  case (stand tag seek)
  show ?case by (rule valueAtomsUpTo.stand)
next
  case (pass seek tag stored later)
  show ?case
    by (rule valueAtomsUpTo.pass [OF less_extend [OF pass.hyps(1) pass.prems] pass.hyps(2,3,4)
          pass.IH [OF pass.prems]])
qed

section \<open>The claims about the Value Decoder\<close>

text \<open>
  Claim C1, as stated, fails: an atom that follows the first container of a level can
  reach the output. In \<open>file3\<close> the level of \<open>udta\<close> (offset 16, length 48) starts with the
  container \<open>meta\<close>, of declared size 12, and the atom that follows it at 28 is an \<open>ilst\<close>.
  The decoder returns the title of that \<open>ilst\<close>; when only the name of the atom at 28 is
  changed to \<open>free\<close>, it returns nothing. The loop of the level does return after the
  descent into \<open>meta\<close>; the atom at 28 is read by the descent itself.
\<close>

theorem sibling_after_container_contributes_counterexample:
  "isContainerAtom (getStringAt file3 (Num 16 + Num 4) (Num 4)) \<and>
   Num 16 + getLongAt file3 (Num 16) True = Num 28 \<and>
   Num 28 < Num 16 + Num 48 \<and>
   getStringAt file3 (Num 28 + Num 4) (Num 4) = ''ilst'' \<and>
   getStringAt file3_free (Num 28 + Num 4) (Num 4) = ''free'' \<and>
   readAtom [] file3 (Num 16) (Num 48) (Some ''moov.udta'') =
     Some (Inr [(copyright_sign # ''nam'', JStr ''Song'')]) \<and>
   readAtom [] file3_free (Num 16) (Num 48) (Some ''moov.udta'') = Some (Inr []) \<and>
   parseData file3 None = Some (Inr [(copyright_sign # ''nam'', JStr ''Song'')]) \<and>
   parseData file3_free None = Some (Inr [])"
  by code_simp

text \<open>
  Claim C1, amended. At any nesting level the decoder descends into the first container
  atom it meets and then returns, so the loop of that level visits no atom after it: when
  the walk of a level has passed value atoms only and stands at a container atom of
  non-zero size inside the level, the result of the whole level is exactly the result of
  the descent into that container, however far the level extends beyond it. In particular
  a container with no room for children ends the level with the tag object as it stands,
  whatever follows. An atom after the container adds to the output only through the
  descent, when the child walk runs past the end of the container.
\<close>

theorem decoder_first_container_only:
  assumes walk: "valueAtomsUpTo data offset length' parentAtomFullName (tag, offset) (tag', seek)"
    and inside: "seek < offset + length'"
    and size: "getLongAt data seek True \<noteq> Num 0"
    and container: "isContainerAtom (getStringAt data (seek + Num 4) (Num 4))"
  shows "(\<forall>extra\<ge>0.
           readAtom tag data offset (length' + Num extra) parentAtomFullName =
           readAtom tag' data
             ((if getStringAt data (seek + Num 4) (Num 4) = ''meta'' then seek + Num 4 else seek)
                + Num 8)
             (getLongAt data seek True - Num 8)
             (Some (fullName parentAtomFullName (getStringAt data (seek + Num 4) (Num 4))))) \<and>
         (\<not> (if getStringAt data (seek + Num 4) (Num 4) = ''meta'' then seek + Num 4 else seek)
               + Num 8
             < (if getStringAt data (seek + Num 4) (Num 4) = ''meta'' then seek + Num 4 else seek)
               + Num 8 + (getLongAt data seek True - Num 8) \<longrightarrow>
          (\<forall>extra\<ge>0.
             readAtom tag data offset (length' + Num extra) parentAtomFullName =
             Some (Inr tag')))"
proof -
  let ?child = "(if getStringAt data (seek + Num 4) (Num 4) = ''meta'' then seek + Num 4 else seek)
                + Num 8"
  let ?descent = "readAtom tag' data ?child (getLongAt data seek True - Num 8)
             (Some (fullName parentAtomFullName (getStringAt data (seek + Num 4) (Num 4))))"
  have level: "readAtom tag data offset (length' + Num extra) parentAtomFullName = ?descent"
    if nonneg: "0 \<le> extra" for extra
  proof -
    have "readAtom tag data offset (length' + Num extra) parentAtomFullName =
          readAtom_while tag' data offset (length' + Num extra) parentAtomFullName seek"
      using valueAtomsUpTo_readAtom_while [OF valueAtomsUpTo_extend [OF walk nonneg]]
      by (simp add: readAtom_def)
    also have "\<dots> = ?descent"
      by (rule readAtom_while_container [OF less_extend [OF inside nonneg] size container])
    finally show ?thesis .
  qed
  have empty: "?descent = Some (Inr tag')"
    if "\<not> ?child < ?child + (getLongAt data seek True - Num 8)"
    using that unfolding readAtom_def by (rule readAtom_while_exit)
  from level empty show ?thesis by simp
qed

text \<open>
  In \<open>file2\<close> the top level holds \<open>ftyp\<close>, a \<open>moov\<close> with the title and a second \<open>moov\<close>
  with the album: the walk passes \<open>ftyp\<close>, descends into the first \<open>moov\<close> and returns the
  title only. In \<open>file7\<close> the first \<open>moov\<close> is empty and the output is empty, though the
  second \<open>moov\<close> holds a title.
\<close>

theorem decoder_first_container_only_witness:
  "valueAtomsUpTo file2 (Num 0) (Num 145) None ([], Num 0) ([], Num 16) \<and>
   Num 16 < Num 0 + Num 145 \<and>
   getLongAt file2 (Num 16) True \<noteq> Num 0 \<and>
   isContainerAtom (getStringAt file2 (Num 16 + Num 4) (Num 4)) \<and>
   readAtom [] file2 (Num 0) (Num 145 + Num 0) None =
     readAtom [] file2
       ((if getStringAt file2 (Num 16 + Num 4) (Num 4) = ''meta'' then Num 16 + Num 4 else Num 16)
          + Num 8)
       (getLongAt file2 (Num 16) True - Num 8)
       (Some (fullName None (getStringAt file2 (Num 16 + Num 4) (Num 4)))) \<and>
   readAtom [] file2 (Num 0) (Num 145 + Num 1000) None =
     readAtom [] file2
       ((if getStringAt file2 (Num 16 + Num 4) (Num 4) = ''meta'' then Num 16 + Num 4 else Num 16)
          + Num 8)
       (getLongAt file2 (Num 16) True - Num 8)
       (Some (fullName None (getStringAt file2 (Num 16 + Num 4) (Num 4)))) \<and>
   readAtom [] file2 (Num 24) (Num 56) (Some ''moov'') =
     Some (Inr [(copyright_sign # ''nam'', JStr ''Song'')]) \<and>
   parseData file2 None = Some (Inr [(copyright_sign # ''nam'', JStr ''Song'')]) \<and>
   valueAtomsUpTo file7 (Num 0) (Num 88) None ([], Num 0) ([], Num 16) \<and>
   Num 16 < Num 0 + Num 88 \<and>
   getLongAt file7 (Num 16) True \<noteq> Num 0 \<and>
   isContainerAtom (getStringAt file7 (Num 16 + Num 4) (Num 4)) \<and>
   \<not> (if getStringAt file7 (Num 16 + Num 4) (Num 4) = ''meta'' then Num 16 + Num 4 else Num 16)
        + Num 8
      < (if getStringAt file7 (Num 16 + Num 4) (Num 4) = ''meta'' then Num 16 + Num 4 else Num 16)
        + Num 8 + (getLongAt file7 (Num 16) True - Num 8) \<and>
   readAtom [] file7 (Num 0) (Num 88 + Num 0) None = Some (Inr []) \<and>
   readAtom [] file7 (Num 0) (Num 88 + Num 1000) None = Some (Inr []) \<and>
   getStringAt file7 (Num 24 + Num 4) (Num 4) = ''moov'' \<and>
   parseData file7 None = Some (Inr [])"
proof -
  have first: "Num 0 < Num 0 + Num 145" by simp
  have ftyp_size: "getLongAt file2 (Num 0) True \<noteq> Num 0" by code_simp
  have ftyp_leaf: "\<not> isContainerAtom (getStringAt file2 (Num 0 + Num 4) (Num 4))" by code_simp
  have ftyp_pass: "(if None = Some ''moov.udta.meta.ilst'' \<and>
              canReadAtom (getStringAt file2 (Num 0 + Num 4) (Num 4))
           then readValueAtom [] file2 (Num 0) (getLongAt file2 (Num 0) True)
                  (getStringAt file2 (Num 0 + Num 4) (Num 4))
           else Inr []) = Inr []" by simp
  have next_pos: "Num 0 + getLongAt file2 (Num 0) True = Num 16" by code_simp
  have "valueAtomsUpTo file2 (Num 0) (Num 145) None
          ([], Num 0 + getLongAt file2 (Num 0) True) ([], Num 16)"
    by (simp add: next_pos valueAtomsUpTo.stand)
  then have walk: "valueAtomsUpTo file2 (Num 0) (Num 145) None ([], Num 0) ([], Num 16)"
    by (rule valueAtomsUpTo.pass [OF first ftyp_size ftyp_leaf ftyp_pass])
  have inside: "Num 16 < Num 0 + Num 145" by simp
  have size: "getLongAt file2 (Num 16) True \<noteq> Num 0" by code_simp
  have container: "isContainerAtom (getStringAt file2 (Num 16 + Num 4) (Num 4))" by code_simp
  have descent: "readAtom [] file2 (Num 24) (Num 56) (Some ''moov'') =
     Some (Inr [(copyright_sign # ''nam'', JStr ''Song'')])" by code_simp
  have whole: "parseData file2 None = Some (Inr [(copyright_sign # ''nam'', JStr ''Song'')])"
    by code_simp
  note level = decoder_first_container_only
    [OF walk inside size container, THEN conjunct1, rule_format]
  have exact: "readAtom [] file2 (Num 0) (Num 145 + Num 0) None =
     readAtom [] file2
       ((if getStringAt file2 (Num 16 + Num 4) (Num 4) = ''meta'' then Num 16 + Num 4 else Num 16)
          + Num 8)
       (getLongAt file2 (Num 16) True - Num 8)
       (Some (fullName None (getStringAt file2 (Num 16 + Num 4) (Num 4))))"
    by (rule level) simp
  have longer: "readAtom [] file2 (Num 0) (Num 145 + Num 1000) None =
     readAtom [] file2
       ((if getStringAt file2 (Num 16 + Num 4) (Num 4) = ''meta'' then Num 16 + Num 4 else Num 16)
          + Num 8)
       (getLongAt file2 (Num 16) True - Num 8)
       (Some (fullName None (getStringAt file2 (Num 16 + Num 4) (Num 4))))"
    by (rule level) simp
  have first7: "Num 0 < Num 0 + Num 88" by simp
  have ftyp_size7: "getLongAt file7 (Num 0) True \<noteq> Num 0" by code_simp
  have ftyp_leaf7: "\<not> isContainerAtom (getStringAt file7 (Num 0 + Num 4) (Num 4))" by code_simp
  have ftyp_pass7: "(if None = Some ''moov.udta.meta.ilst'' \<and>
              canReadAtom (getStringAt file7 (Num 0 + Num 4) (Num 4))
           then readValueAtom [] file7 (Num 0) (getLongAt file7 (Num 0) True)
                  (getStringAt file7 (Num 0 + Num 4) (Num 4))
           else Inr []) = Inr []" by simp
  have next_pos7: "Num 0 + getLongAt file7 (Num 0) True = Num 16" by code_simp
  have "valueAtomsUpTo file7 (Num 0) (Num 88) None
          ([], Num 0 + getLongAt file7 (Num 0) True) ([], Num 16)"
    by (simp add: next_pos7 valueAtomsUpTo.stand)
  then have walk7: "valueAtomsUpTo file7 (Num 0) (Num 88) None ([], Num 0) ([], Num 16)"
    by (rule valueAtomsUpTo.pass [OF first7 ftyp_size7 ftyp_leaf7 ftyp_pass7])
  have inside7: "Num 16 < Num 0 + Num 88" by simp
  have size7: "getLongAt file7 (Num 16) True \<noteq> Num 0" by code_simp
  have container7: "isContainerAtom (getStringAt file7 (Num 16 + Num 4) (Num 4))" by code_simp
  have childless: "\<not> (if getStringAt file7 (Num 16 + Num 4) (Num 4) = ''meta''
                      then Num 16 + Num 4 else Num 16) + Num 8
      < (if getStringAt file7 (Num 16 + Num 4) (Num 4) = ''meta'' then Num 16 + Num 4 else Num 16)
        + Num 8 + (getLongAt file7 (Num 16) True - Num 8)" by code_simp
  note ended = decoder_first_container_only
    [OF walk7 inside7 size7 container7, THEN conjunct2, rule_format, OF childless]
  have exact7: "readAtom [] file7 (Num 0) (Num 88 + Num 0) None = Some (Inr [])"
    by (rule ended) simp
  have longer7: "readAtom [] file7 (Num 0) (Num 88 + Num 1000) None = Some (Inr [])"
    by (rule ended) simp
  have second: "getStringAt file7 (Num 24 + Num 4) (Num 4) = ''moov''" by code_simp
  have whole7: "parseData file7 None = Some (Inr [])" by code_simp
  from walk inside size container exact longer descent whole
    walk7 inside7 size7 container7 childless exact7 longer7 second whole7
  show ?thesis by blast
qed







text \<open>
  Claim C7. For every \<open>trkn\<close> atom under the metadata path the decoder does not consult
  the type table: it stores what \<open>getByteAt\<close> answers at header offset +16+11 under \<open>trkn\<close>
  and what it answers at header offset +16+13 under \<open>count\<close>, then goes on with the next
  atom; the tag object with these two properties is what the level returns when the atom
  is its last.
\<close>

theorem trkn_track_and_count:
  assumes "seek < offset + length'"
    and "getLongAt data seek True \<noteq> Num 0"
    and "getStringAt data (seek + Num 4) (Num 4) = ''trkn''"
  shows "readValueAtom tag data seek (getLongAt data seek True) ''trkn'' =
           Inr (setProp (setProp tag ''trkn'' (getByteAt data (seek + Num 16 + Num 11)))
                  ''count'' (getByteAt data (seek + Num 16 + Num 13))) \<and>
         map_of (setProp (setProp tag ''trkn'' (getByteAt data (seek + Num 16 + Num 11)))
                   ''count'' (getByteAt data (seek + Num 16 + Num 13))) ''trkn'' =
           Some (getByteAt data (seek + Num 16 + Num 11)) \<and>
         map_of (setProp (setProp tag ''trkn'' (getByteAt data (seek + Num 16 + Num 11)))
                   ''count'' (getByteAt data (seek + Num 16 + Num 13))) ''count'' =
           Some (getByteAt data (seek + Num 16 + Num 13)) \<and>
         readAtom_while tag data offset length' (Some ''moov.udta.meta.ilst'') seek =
           readAtom_while
             (setProp (setProp tag ''trkn'' (getByteAt data (seek + Num 16 + Num 11)))
                ''count'' (getByteAt data (seek + Num 16 + Num 13)))
             data offset length' (Some ''moov.udta.meta.ilst'')
             (seek + getLongAt data seek True) \<and>
         (\<not> seek + getLongAt data seek True < offset + length' \<longrightarrow>
            readAtom_while tag data offset length' (Some ''moov.udta.meta.ilst'') seek =
            Some (Inr (setProp (setProp tag ''trkn'' (getByteAt data (seek + Num 16 + Num 11)))
                         ''count'' (getByteAt data (seek + Num 16 + Num 13))))) \<and>
         (\<forall>out. readAtom_while tag data offset length' (Some ''moov.udta.meta.ilst'') seek =
                  Some (Inr out) \<longrightarrow> ''trkn'' \<in> fst ` set out \<and> ''count'' \<in> fst ` set out)"
proof (intro conjI impI allI)
  have leaf: "\<not> isContainerAtom ''trkn''"
    by (simp add: isContainerAtom_def)
  have supported: "''trkn'' \<noteq> ''----''" by simp
  show stored: "readValueAtom tag data seek (getLongAt data seek True) ''trkn'' =
           Inr (setProp (setProp tag ''trkn'' (getByteAt data (seek + Num 16 + Num 11)))
                  ''count'' (getByteAt data (seek + Num 16 + Num 13)))"
    by (simp add: readValueAtom_def)
  show "map_of (setProp (setProp tag ''trkn'' (getByteAt data (seek + Num 16 + Num 11)))
                   ''count'' (getByteAt data (seek + Num 16 + Num 13))) ''trkn'' =
           Some (getByteAt data (seek + Num 16 + Num 11))"
    by (simp add: map_of_setProp)
  show "map_of (setProp (setProp tag ''trkn'' (getByteAt data (seek + Num 16 + Num 11)))
                   ''count'' (getByteAt data (seek + Num 16 + Num 13))) ''count'' =
           Some (getByteAt data (seek + Num 16 + Num 13))"
    by (simp add: map_of_setProp)
  show step: "readAtom_while tag data offset length' (Some ''moov.udta.meta.ilst'') seek =
           readAtom_while
             (setProp (setProp tag ''trkn'' (getByteAt data (seek + Num 16 + Num 11)))
                ''count'' (getByteAt data (seek + Num 16 + Num 13)))
             data offset length' (Some ''moov.udta.meta.ilst'')
             (seek + getLongAt data seek True)"
    by (subst readAtom_while_read [OF assms leaf supported]) (simp add: stored)
  {
    assume "\<not> seek + getLongAt data seek True < offset + length'"
    then show "readAtom_while tag data offset length' (Some ''moov.udta.meta.ilst'') seek =
            Some (Inr (setProp (setProp tag ''trkn'' (getByteAt data (seek + Num 16 + Num 11)))
                         ''count'' (getByteAt data (seek + Num 16 + Num 13))))"
      by (simp add: step readAtom_while_exit)
  }
  fix out
  assume "readAtom_while tag data offset length' (Some ''moov.udta.meta.ilst'') seek =
                  Some (Inr out)"
  with step have keys:
    "fst ` set (setProp (setProp tag ''trkn'' (getByteAt data (seek + Num 16 + Num 11)))
                  ''count'' (getByteAt data (seek + Num 16 + Num 13))) \<subseteq> fst ` set out"
    by (simp add: readAtom_while_keys)
  from keys show "''trkn'' \<in> fst ` set out" by (auto simp: keys_setProp)
  from keys show "''count'' \<in> fst ` set out" by (auto simp: keys_setProp)
qed

text \<open>
  In \<open>file6\<close> the bytes at those offsets are 5 and 12 and the \<open>trkn\<close> atom is the last of
  its level: the level returns the tag object it started with, extended by \<open>trkn\<close> = 5 and
  \<open>count\<close> = 12, and the output of the whole file is \<open>{trkn: 5, count: 12}\<close>.
\<close>

theorem trkn_track_and_count_witness:
  "Num 36 < Num 36 + Num 32 \<and>
   getLongAt file6 (Num 36) True \<noteq> Num 0 \<and>
   getStringAt file6 (Num 36 + Num 4) (Num 4) = ''trkn'' \<and>
   getByteAt file6 (Num 36 + Num 16 + Num 11) = JNum (Num 5) \<and>
   getByteAt file6 (Num 36 + Num 16 + Num 13) = JNum (Num 12) \<and>
   \<not> Num 36 + getLongAt file6 (Num 36) True < Num 36 + Num 32 \<and>
   readAtom_while [] file6 (Num 36) (Num 32) (Some ''moov.udta.meta.ilst'') (Num 36) =
     Some (Inr [(''trkn'', JNum (Num 5)), (''count'', JNum (Num 12))]) \<and>
   readAtom_while [(copyright_sign # ''nam'', JStr ''Song'')] file6 (Num 36) (Num 32)
       (Some ''moov.udta.meta.ilst'') (Num 36) =
     Some (Inr [(copyright_sign # ''nam'', JStr ''Song''), (''trkn'', JNum (Num 5)),
                (''count'', JNum (Num 12))]) \<and>
   parseData file6 None = Some (Inr [(''trkn'', JNum (Num 5)), (''count'', JNum (Num 12))])"
proof -
  have inside: "Num 36 < Num 36 + Num 32" by simp
  have size: "getLongAt file6 (Num 36) True \<noteq> Num 0" by code_simp
  have name: "getStringAt file6 (Num 36 + Num 4) (Num 4) = ''trkn''" by code_simp
  have track: "getByteAt file6 (Num 36 + Num 16 + Num 11) = JNum (Num 5)" by code_simp
  have count: "getByteAt file6 (Num 36 + Num 16 + Num 13) = JNum (Num 12)" by code_simp
  have last: "\<not> Num 36 + getLongAt file6 (Num 36) True < Num 36 + Num 32" by code_simp
  note trkn = trkn_track_and_count [OF inside size name]
  from trkn [of "[]"] last
  have "readAtom_while [] file6 (Num 36) (Num 32) (Some ''moov.udta.meta.ilst'') (Num 36) =
     Some (Inr (setProp (setProp [] ''trkn'' (getByteAt file6 (Num 36 + Num 16 + Num 11)))
                         ''count'' (getByteAt file6 (Num 36 + Num 16 + Num 13))))"
    by blast
  then have empty: "readAtom_while [] file6 (Num 36) (Num 32) (Some ''moov.udta.meta.ilst'')
      (Num 36) = Some (Inr [(''trkn'', JNum (Num 5)), (''count'', JNum (Num 12))])"
    using track count by simp
  from trkn [of "[(copyright_sign # ''nam'', JStr ''Song'')]"] last
  have "readAtom_while [(copyright_sign # ''nam'', JStr ''Song'')] file6 (Num 36) (Num 32)
       (Some ''moov.udta.meta.ilst'') (Num 36) =
     Some (Inr (setProp (setProp [(copyright_sign # ''nam'', JStr ''Song'')] ''trkn''
                           (getByteAt file6 (Num 36 + Num 16 + Num 11)))
                         ''count'' (getByteAt file6 (Num 36 + Num 16 + Num 13))))"
    by blast
  then have titled: "readAtom_while [(copyright_sign # ''nam'', JStr ''Song'')] file6 (Num 36)
       (Num 32) (Some ''moov.udta.meta.ilst'') (Num 36) =
     Some (Inr [(copyright_sign # ''nam'', JStr ''Song''), (''trkn'', JNum (Num 5)),
                (''count'', JNum (Num 12))])"
    using track count by (simp add: copyright_sign_def)
  have whole: "parseData file6 None =
      Some (Inr [(''trkn'', JNum (Num 5)), (''count'', JNum (Num 12))])"
    by code_simp
  from inside size name track count last empty titled whole show ?thesis by blast
qed

text \<open>
  Claim C8. A value atom named \<open>----\<close> never adds an entry to the output, also under
  \<open>moov.udta.meta.ilst\<close>: the loop passes such an atom with the tag object unchanged, under
  any parent path, and the output of any walk that starts from a tag object without the
  key \<open>----\<close> has no key \<open>----\<close>.
\<close>

theorem unsupported_marker_never_stored:
  "(seek < offset + length' \<and> getLongAt data seek True \<noteq> Num 0 \<and>
    getStringAt data (seek + Num 4) (Num 4) = ''----'' \<longrightarrow>
      readAtom_while tag data offset length' parentAtomFullName seek =
      readAtom_while tag data offset length' parentAtomFullName
        (seek + getLongAt data seek True)) \<and>
   (\<forall>out. readAtom tag data offset length' parentAtomFullName = Some (Inr out) \<and>
      ''----'' \<notin> fst ` set tag \<longrightarrow> ''----'' \<notin> fst ` set out)"
proof (intro conjI impI allI)
  assume at_marker: "seek < offset + length' \<and> getLongAt data seek True \<noteq> Num 0 \<and>
    getStringAt data (seek + Num 4) (Num 4) = ''----''"
  then have leaf: "\<not> isContainerAtom (getStringAt data (seek + Num 4) (Num 4))"
    by (simp add: isContainerAtom_def)
  from at_marker show "readAtom_while tag data offset length' parentAtomFullName seek =
      readAtom_while tag data offset length' parentAtomFullName
        (seek + getLongAt data seek True)"
    by (subst readAtom_while_value [OF _ _ leaf]) (simp_all add: canReadAtom_def)
next
  fix out
  assume "readAtom tag data offset length' parentAtomFullName = Some (Inr out) \<and>
      ''----'' \<notin> fst ` set tag"
  then show "''----'' \<notin> fst ` set out"
    unfolding readAtom_def using readAtom_while_unsupported by blast
qed

text \<open>
  \<open>file1\<close> has a \<open>----\<close> atom at 166, inside \<open>ilst\<close>; the loop passes it and the output of
  the whole file has no such key.
\<close>

theorem unsupported_marker_never_stored_witness:
  "(Num 166 < Num 52 + Num 154 \<and> getLongAt file1 (Num 166) True \<noteq> Num 0 \<and>
    getStringAt file1 (Num 166 + Num 4) (Num 4) = ''----'') \<and>
   readAtom_while [(''xxxx'', JStr ''Demo'')] file1 (Num 52) (Num 154)
       (Some ''moov.udta.meta.ilst'') (Num 166) =
     readAtom_while [(''xxxx'', JStr ''Demo'')] file1 (Num 52) (Num 154)
       (Some ''moov.udta.meta.ilst'') (Num 166 + getLongAt file1 (Num 166) True) \<and>
   readAtom [] file1 (Num 0) (getSize file1) None =
     Some (Inr [(copyright_sign # ''nam'', JStr ''Song''), (''trkn'', JNum (Num 5)),
                (''count'', JNum (Num 12)), (''tmpo'', JNum (Num 30720)),
                (''xxxx'', JStr ''Demo'')]) \<and>
   ''----'' \<notin> fst ` set ([] :: tagobj) \<and>
   ''----'' \<notin> fst ` set [(copyright_sign # ''nam'', JStr ''Song''), (''trkn'', JNum (Num 5)),
           (''count'', JNum (Num 12)), (''tmpo'', JNum (Num 30720)),
           (''xxxx'', JStr ''Demo'')]"
proof -
  have marker: "Num 166 < Num 52 + Num 154 \<and> getLongAt file1 (Num 166) True \<noteq> Num 0 \<and>
    getStringAt file1 (Num 166 + Num 4) (Num 4) = ''----''" by code_simp
  have run: "readAtom [] file1 (Num 0) (getSize file1) None =
     Some (Inr [(copyright_sign # ''nam'', JStr ''Song''), (''trkn'', JNum (Num 5)),
                (''count'', JNum (Num 12)), (''tmpo'', JNum (Num 30720)),
                (''xxxx'', JStr ''Demo'')])" by code_simp
  have clean: "''----'' \<notin> fst ` set ([] :: tagobj)" by simp
  note passed = unsupported_marker_never_stored
    [of "Num 166" "Num 52" "Num 154" file1 "[(''xxxx'', JStr ''Demo'')]"
        "Some ''moov.udta.meta.ilst''", THEN conjunct1]
  note whole = unsupported_marker_never_stored
    [of _ "Num 0" "getSize file1" file1 "[]" None, THEN conjunct2]
  from marker passed have
    "readAtom_while [(''xxxx'', JStr ''Demo'')] file1 (Num 52) (Num 154)
       (Some ''moov.udta.meta.ilst'') (Num 166) =
     readAtom_while [(''xxxx'', JStr ''Demo'')] file1 (Num 52) (Num 154)
       (Some ''moov.udta.meta.ilst'') (Num 166 + getLongAt file1 (Num 166) True)"
    by blast
  moreover from run clean whole have
    "''----'' \<notin> fst ` set [(copyright_sign # ''nam'', JStr ''Song''), (''trkn'', JNum (Num 5)),
           (''count'', JNum (Num 12)), (''tmpo'', JNum (Num 30720)),
           (''xxxx'', JStr ''Demo'')]"
    by blast
  ultimately show ?thesis using marker run clean by blast
qed

text \<open>
  Claim C9. For a \<open>meta\<close> container at position \<open>p\<close> with declared size \<open>s\<close> the decoder
  walks the children from \<open>p + 12\<close> with length \<open>s - 8\<close>. That walk stops, with the tag
  object as it stands, at every position at or beyond \<open>p + s + 4\<close>, and at every position
  \<open>q\<close> below \<open>p + s + 4\<close> it processes the atom whose header starts at \<open>q\<close> as a child of
  \<open>meta\<close>: it returns at a zero size, descends into a container under the path of \<open>meta\<close>
  extended by its name, and steps over a value atom. So the walk covers exactly four
  bytes past the declared end \<open>p + s\<close>, and an atom header that starts in those four bytes
  is processed as a child of \<open>meta\<close>. In particular, when \<open>meta\<close> lies under \<open>moov.udta\<close>
  and an \<open>ilst\<close> header starts at such a position, a value atom that fills that \<open>ilst\<close>
  is decoded into the output.
\<close>

theorem decoder_meta_overrun:
  assumes "Num p < offset + length'"
    and "getLongAt data (Num p) True = Num s"
    and "s \<noteq> 0"
    and "getStringAt data (Num p + Num 4) (Num 4) = ''meta''"
  shows "readAtom_while tag data offset length' parentAtomFullName (Num p) =
           readAtom tag data (Num (p + 12)) (Num (s - 8))
             (Some (fullName parentAtomFullName ''meta'')) \<and>
         (\<forall>q tag'. p + s + 4 \<le> q \<longrightarrow>
             readAtom_while tag' data (Num (p + 12)) (Num (s - 8))
               (Some (fullName parentAtomFullName ''meta'')) (Num q) = Some (Inr tag')) \<and>
         (\<forall>q tag'. q < p + s + 4 \<longrightarrow>
             readAtom_while tag' data (Num (p + 12)) (Num (s - 8))
               (Some (fullName parentAtomFullName ''meta'')) (Num q) =
             (if getLongAt data (Num q) True = Num 0 then Some (Inr tag')
              else if isContainerAtom (getStringAt data (Num q + Num 4) (Num 4)) then
                readAtom tag' data
                  ((if getStringAt data (Num q + Num 4) (Num 4) = ''meta''
                    then Num q + Num 4 else Num q) + Num 8)
                  (getLongAt data (Num q) True - Num 8)
                  (Some (fullName (Some (fullName parentAtomFullName ''meta''))
                           (getStringAt data (Num q + Num 4) (Num 4))))
              else
                readAtom_while tag' data (Num (p + 12)) (Num (s - 8))
                  (Some (fullName parentAtomFullName ''meta''))
                  (Num q + getLongAt data (Num q) True))) \<and>
         (\<forall>q tag' n atomName.
             q < p + s + 4 \<and>
             fullName parentAtomFullName ''meta'' = ''moov.udta.meta'' \<and>
             getLongAt data (Num q) True = Num n \<and> 8 < n \<and>
             getStringAt data (Num q + Num 4) (Num 4) = ''ilst'' \<and>
             getLongAt data (Num (q + 8)) True \<noteq> Num 0 \<and>
             getStringAt data (Num (q + 8) + Num 4) (Num 4) = atomName \<and>
             \<not> isContainerAtom atomName \<and> atomName \<noteq> ''----'' \<and>
             \<not> Num (q + 8) + getLongAt data (Num (q + 8)) True < Num (q + 8) + Num (n - 8) \<longrightarrow>
             readAtom_while tag' data (Num (p + 12)) (Num (s - 8))
               (Some (fullName parentAtomFullName ''meta'')) (Num q) =
             Some (readValueAtom tag' data (Num (q + 8)) (getLongAt data (Num (q + 8)) True)
                     atomName))"
proof (intro conjI allI impI)
  have container: "isContainerAtom (getStringAt data (Num p + Num 4) (Num 4))"
    using assms(4) by (simp add: isContainerAtom_def)
  have size: "getLongAt data (Num p) True \<noteq> Num 0"
    by (simp add: assms(2,3))
  show "readAtom_while tag data offset length' parentAtomFullName (Num p) =
           readAtom tag data (Num (p + 12)) (Num (s - 8))
             (Some (fullName parentAtomFullName ''meta''))"
    using assms(2,4)
    by (subst readAtom_while_container [OF assms(1) size container]) (simp add: add.commute)
next
  fix q tag'
  assume "p + s + 4 \<le> q"
  then have "\<not> Num q < Num (p + 12) + Num (s - 8)" by simp
  then show "readAtom_while tag' data (Num (p + 12)) (Num (s - 8))
               (Some (fullName parentAtomFullName ''meta'')) (Num q) = Some (Inr tag')"
    by (rule readAtom_while_exit)
next
  fix q tag'
  assume "q < p + s + 4"
  then have inside: "Num q < Num (p + 12) + Num (s - 8)" by simp
  show "readAtom_while tag' data (Num (p + 12)) (Num (s - 8))
               (Some (fullName parentAtomFullName ''meta'')) (Num q) =
             (if getLongAt data (Num q) True = Num 0 then Some (Inr tag')
              else if isContainerAtom (getStringAt data (Num q + Num 4) (Num 4)) then
                readAtom tag' data
                  ((if getStringAt data (Num q + Num 4) (Num 4) = ''meta''
                    then Num q + Num 4 else Num q) + Num 8)
                  (getLongAt data (Num q) True - Num 8)
                  (Some (fullName (Some (fullName parentAtomFullName ''meta''))
                           (getStringAt data (Num q + Num 4) (Num 4))))
              else
                readAtom_while tag' data (Num (p + 12)) (Num (s - 8))
                  (Some (fullName parentAtomFullName ''meta''))
                  (Num q + getLongAt data (Num q) True))"
  proof (cases "getLongAt data (Num q) True = Num 0")
    case True
    then show ?thesis by (simp add: readAtom_while_zero)
  next
    case size: False
    show ?thesis
    proof (cases "isContainerAtom (getStringAt data (Num q + Num 4) (Num 4))")
      case True
      from readAtom_while_container [OF inside size True] size True show ?thesis
        by simp
    next
      case False
      from readAtom_while_value [OF inside size False] size False show ?thesis
        by (simp add: fullName_meta_not_ilst)
    qed
  qed
next
  fix q tag' n atomName
  assume filled: "q < p + s + 4 \<and>
             fullName parentAtomFullName ''meta'' = ''moov.udta.meta'' \<and>
             getLongAt data (Num q) True = Num n \<and> 8 < n \<and>
             getStringAt data (Num q + Num 4) (Num 4) = ''ilst'' \<and>
             getLongAt data (Num (q + 8)) True \<noteq> Num 0 \<and>
             getStringAt data (Num (q + 8) + Num 4) (Num 4) = atomName \<and>
             \<not> isContainerAtom atomName \<and> atomName \<noteq> ''----'' \<and>
             \<not> Num (q + 8) + getLongAt data (Num (q + 8)) True < Num (q + 8) + Num (n - 8)"
  then have inside: "Num q < Num (p + 12) + Num (s - 8)" by simp
  from filled have size: "getLongAt data (Num q) True \<noteq> Num 0" by simp
  from filled have container: "isContainerAtom (getStringAt data (Num q + Num 4) (Num 4))"
    by (simp add: isContainerAtom_def)
  from filled have path: "fullName (Some (fullName parentAtomFullName ''meta'')) ''ilst'' =
      ''moov.udta.meta.ilst''"
    by (simp add: fullName_def truthy_def)
  from filled have child: "Num (q + 8) < Num (q + 8) + Num (n - 8)" by simp
  from filled have child_size: "getLongAt data (Num (q + 8)) True \<noteq> Num 0"
    and child_name: "getStringAt data (Num (q + 8) + Num 4) (Num 4) = atomName"
    and leaf: "\<not> isContainerAtom atomName"
    and supported: "atomName \<noteq> ''----''"
    and last: "\<not> Num (q + 8) + getLongAt data (Num (q + 8)) True < Num (q + 8) + Num (n - 8)"
    by simp_all
  have "readAtom_while tag' data (Num (p + 12)) (Num (s - 8))
               (Some (fullName parentAtomFullName ''meta'')) (Num q) =
        readAtom tag' data (Num (q + 8)) (Num (n - 8)) (Some ''moov.udta.meta.ilst'')"
    using filled path by (subst readAtom_while_container [OF inside size container]) simp
  also have "\<dots> = (case readValueAtom tag' data (Num (q + 8))
                           (getLongAt data (Num (q + 8)) True) atomName of
                      Inl thrown \<Rightarrow> Some (Inl thrown)
                    | Inr stored \<Rightarrow>
                        readAtom_while stored data (Num (q + 8)) (Num (n - 8))
                          (Some ''moov.udta.meta.ilst'')
                          (Num (q + 8) + getLongAt data (Num (q + 8)) True))"
    unfolding readAtom_def
    by (rule readAtom_while_read [OF child child_size child_name leaf supported])
  also have "\<dots> = Some (readValueAtom tag' data (Num (q + 8))
                           (getLongAt data (Num (q + 8)) True) atomName)"
    using last by (simp add: readAtom_while_exit split: sum.splits)
  finally show "readAtom_while tag' data (Num (p + 12)) (Num (s - 8))
               (Some (fullName parentAtomFullName ''meta'')) (Num q) =
             Some (readValueAtom tag' data (Num (q + 8)) (getLongAt data (Num (q + 8)) True)
                     atomName)" .
qed

text \<open>
  In \<open>file3\<close> the \<open>meta\<close> atom at 16 has size 12 and ends at 28, where an \<open>ilst\<close> follows it
  inside \<open>udta\<close>: the decoder takes that \<open>ilst\<close> for a child of \<open>meta\<close>, under the path
  \<open>moov.udta.meta.ilst\<close>, and returns its title. In \<open>file8\<close> the \<open>ilst\<close> starts at 32, four
  bytes past the end of \<open>meta\<close>: the child walk steps over the four bytes at 28 and stops at
  32, and the output is empty.
\<close>

theorem decoder_meta_overrun_witness:
  "Num 16 < Num 16 + Num 48 \<and>
   getLongAt file3 (Num 16) True = Num 12 \<and>
   (12 :: int) \<noteq> 0 \<and>
   getStringAt file3 (Num 16 + Num 4) (Num 4) = ''meta'' \<and>
   readAtom_while [] file3 (Num 16) (Num 48) (Some ''moov.udta'') (Num 16) =
     readAtom [] file3 (Num (16 + 12)) (Num (12 - 8)) (Some (fullName (Some ''moov.udta'') ''meta'')) \<and>
   (16 + 12 \<le> (28 :: int) \<and> (28 :: int) < 16 + 12 + 4 \<and>
    getLongAt file3 (Num 28) True \<noteq> Num 0 \<and>
    isContainerAtom (getStringAt file3 (Num 28 + Num 4) (Num 4))) \<and>
   readAtom_while [] file3 (Num (16 + 12)) (Num (12 - 8))
       (Some (fullName (Some ''moov.udta'') ''meta'')) (Num 28) =
     readAtom [] file3
       ((if getStringAt file3 (Num 28 + Num 4) (Num 4) = ''meta''
         then Num 28 + Num 4 else Num 28) + Num 8)
       (getLongAt file3 (Num 28) True - Num 8)
       (Some (fullName (Some (fullName (Some ''moov.udta'') ''meta''))
                (getStringAt file3 (Num 28 + Num 4) (Num 4)))) \<and>
   fullName (Some (fullName (Some ''moov.udta'') ''meta''))
     (getStringAt file3 (Num 28 + Num 4) (Num 4)) = ''moov.udta.meta.ilst'' \<and>
   parseData file3 None = Some (Inr [(copyright_sign # ''nam'', JStr ''Song'')]) \<and>
   ((28 :: int) < 16 + 12 + 4 \<and>
    fullName (Some ''moov.udta'') ''meta'' = ''moov.udta.meta'' \<and>
    getLongAt file3 (Num 28) True = Num 36 \<and> (8 :: int) < 36 \<and>
    getStringAt file3 (Num 28 + Num 4) (Num 4) = ''ilst'' \<and>
    getLongAt file3 (Num (28 + 8)) True \<noteq> Num 0 \<and>
    getStringAt file3 (Num (28 + 8) + Num 4) (Num 4) = copyright_sign # ''nam'' \<and>
    \<not> isContainerAtom (copyright_sign # ''nam'') \<and> copyright_sign # ''nam'' \<noteq> ''----'' \<and>
    \<not> Num (28 + 8) + getLongAt file3 (Num (28 + 8)) True < Num (28 + 8) + Num (36 - 8)) \<and>
   readValueAtom [(''trkn'', JNum (Num 5))] file3 (Num (28 + 8))
       (getLongAt file3 (Num (28 + 8)) True) (copyright_sign # ''nam'') =
     Inr [(''trkn'', JNum (Num 5)), (copyright_sign # ''nam'', JStr ''Song'')] \<and>
   readAtom_while [(''trkn'', JNum (Num 5))] file3 (Num (16 + 12)) (Num (12 - 8))
       (Some (fullName (Some ''moov.udta'') ''meta'')) (Num 28) =
     Some (Inr [(''trkn'', JNum (Num 5)), (copyright_sign # ''nam'', JStr ''Song'')]) \<and>
   Num 16 < Num 16 + Num 52 \<and>
   getLongAt file8 (Num 16) True = Num 12 \<and>
   getStringAt file8 (Num 16 + Num 4) (Num 4) = ''meta'' \<and>
   getStringAt file8 (Num 32 + Num 4) (Num 4) = ''ilst'' \<and>
   (16 :: int) + 12 + 4 \<le> 32 \<and>
   readAtom_while [(''trkn'', JNum (Num 5))] file8 (Num (16 + 12)) (Num (12 - 8))
       (Some (fullName (Some ''moov.udta'') ''meta'')) (Num 32) =
     Some (Inr [(''trkn'', JNum (Num 5))]) \<and>
   readAtom_while [] file8 (Num 16) (Num 52) (Some ''moov.udta'') (Num 16) = Some (Inr []) \<and>
   parseData file8 None = Some (Inr [])"
proof -
  have inside: "Num 16 < Num 16 + Num 48" by simp
  have size: "getLongAt file3 (Num 16) True = Num 12" by code_simp
  have nonzero: "(12 :: int) \<noteq> 0" by simp
  have name: "getStringAt file3 (Num 16 + Num 4) (Num 4) = ''meta''" by code_simp
  have trailing: "16 + 12 \<le> (28 :: int) \<and> (28 :: int) < 16 + 12 + 4 \<and>
    getLongAt file3 (Num 28) True \<noteq> Num 0 \<and>
    isContainerAtom (getStringAt file3 (Num 28 + Num 4) (Num 4))" by code_simp
  have path: "fullName (Some (fullName (Some ''moov.udta'') ''meta''))
     (getStringAt file3 (Num 28 + Num 4) (Num 4)) = ''moov.udta.meta.ilst''" by code_simp
  have whole: "parseData file3 None = Some (Inr [(copyright_sign # ''nam'', JStr ''Song'')])"
    by code_simp
  note meta = decoder_meta_overrun [OF inside size nonzero name, of "[]" "Some ''moov.udta''"]
  from meta have descent:
    "readAtom_while [] file3 (Num 16) (Num 48) (Some ''moov.udta'') (Num 16) =
     readAtom [] file3 (Num (16 + 12)) (Num (12 - 8)) (Some (fullName (Some ''moov.udta'') ''meta''))"
    by (rule conjunct1)
  from meta [THEN conjunct2, THEN conjunct2, THEN conjunct1, rule_format, of 28 "[]"] trailing
  have overrun:
    "readAtom_while [] file3 (Num (16 + 12)) (Num (12 - 8))
       (Some (fullName (Some ''moov.udta'') ''meta'')) (Num 28) =
     readAtom [] file3
       ((if getStringAt file3 (Num 28 + Num 4) (Num 4) = ''meta''
         then Num 28 + Num 4 else Num 28) + Num 8)
       (getLongAt file3 (Num 28) True - Num 8)
       (Some (fullName (Some (fullName (Some ''moov.udta'') ''meta''))
                (getStringAt file3 (Num 28 + Num 4) (Num 4))))"
    by simp
  have filled: "(28 :: int) < 16 + 12 + 4 \<and>
    fullName (Some ''moov.udta'') ''meta'' = ''moov.udta.meta'' \<and>
    getLongAt file3 (Num 28) True = Num 36 \<and> (8 :: int) < 36 \<and>
    getStringAt file3 (Num 28 + Num 4) (Num 4) = ''ilst'' \<and>
    getLongAt file3 (Num (28 + 8)) True \<noteq> Num 0 \<and>
    getStringAt file3 (Num (28 + 8) + Num 4) (Num 4) = copyright_sign # ''nam'' \<and>
    \<not> isContainerAtom (copyright_sign # ''nam'') \<and> copyright_sign # ''nam'' \<noteq> ''----'' \<and>
    \<not> Num (28 + 8) + getLongAt file3 (Num (28 + 8)) True < Num (28 + 8) + Num (36 - 8)"
    by code_simp
  have stored: "readValueAtom [(''trkn'', JNum (Num 5))] file3 (Num (28 + 8))
       (getLongAt file3 (Num (28 + 8)) True) (copyright_sign # ''nam'') =
     Inr [(''trkn'', JNum (Num 5)), (copyright_sign # ''nam'', JStr ''Song'')]"
    by code_simp
  from meta [THEN conjunct2, THEN conjunct2, THEN conjunct2, rule_format,
             of 28 36 "copyright_sign # ''nam''" "[(''trkn'', JNum (Num 5))]", OF filled]
  have "readAtom_while [(''trkn'', JNum (Num 5))] file3 (Num (16 + 12)) (Num (12 - 8))
       (Some (fullName (Some ''moov.udta'') ''meta'')) (Num 28) =
     Some (readValueAtom [(''trkn'', JNum (Num 5))] file3 (Num (28 + 8))
             (getLongAt file3 (Num (28 + 8)) True) (copyright_sign # ''nam''))" .
  with stored have decoded:
    "readAtom_while [(''trkn'', JNum (Num 5))] file3 (Num (16 + 12)) (Num (12 - 8))
       (Some (fullName (Some ''moov.udta'') ''meta'')) (Num 28) =
     Some (Inr [(''trkn'', JNum (Num 5)), (copyright_sign # ''nam'', JStr ''Song'')])"
    by simp
  have inside8: "Num 16 < Num 16 + Num 52" by simp
  have size8: "getLongAt file8 (Num 16) True = Num 12" by code_simp
  have name8: "getStringAt file8 (Num 16 + Num 4) (Num 4) = ''meta''" by code_simp
  have ilst8: "getStringAt file8 (Num 32 + Num 4) (Num 4) = ''ilst''" by code_simp
  have beyond: "(16 :: int) + 12 + 4 \<le> 32" by simp
  note meta8 = decoder_meta_overrun [OF inside8 size8 nonzero name8]
  from meta8 [of _ "Some ''moov.udta''", THEN conjunct2, THEN conjunct1, rule_format, OF beyond]
  have stop: "readAtom_while [(''trkn'', JNum (Num 5))] file8 (Num (16 + 12)) (Num (12 - 8))
       (Some (fullName (Some ''moov.udta'') ''meta'')) (Num 32) =
     Some (Inr [(''trkn'', JNum (Num 5))])" .
  have level8: "readAtom_while [] file8 (Num 16) (Num 52) (Some ''moov.udta'') (Num 16) =
      Some (Inr [])" by code_simp
  have whole8: "parseData file8 None = Some (Inr [])" by code_simp
  from inside size nonzero name descent trailing overrun path whole filled stored decoded
    inside8 size8 name8 ilst8 beyond stop level8 whole8
  show ?thesis by blast
qed

text \<open>
  Claim C10. The decode pass never looks at the list of requested fields: for every source,
  any two values of that argument, also an absent one, give the same result.
\<close>

theorem parseData_ignores_requested_fields:
  "parseData data requestedFields1 = parseData data requestedFields2"
  by (simp add: parseData_def)

section \<open>The claims about the Tree Loader\<close>

text \<open>
  Claim C3 fails on the code: the loader only ever extends \<open>parentAtomFullName\<close> and never
  shortens it when a container ends. In \<open>file1\<close> the \<open>moov\<close> atom ends at 206, where the
  top-level atom \<open>mdat\<close> (108 bytes) starts; the loader is still under the path
  \<open>moov.udta.meta.ilst\<close> and requests the range from 206 to 322, the whole of \<open>mdat\<close>.
  These are all the ranges the loader requests for \<open>file1\<close>.
\<close>

theorem loader_fetches_payload_after_ilst:
  "loadData alwaysLoaded file1 =
     Some ([(Num 0, Num 7), (Num 16, Num 24), (Num 24, Num 32), (Num 32, Num 40),
            (Num 44, Num 52), (Num 52, Num 60), (Num 52, Num 88), (Num 80, Num 120),
            (Num 112, Num 146), (Num 138, Num 174), (Num 166, Num 214),
            (Num 206, Num 322)], OnSuccess) \<and>
   Num 16 + getLongAt file1 (Num 16) True = Num 206 \<and>
   getStringAt file1 (Num 206 + Num 4) (Num 4) = ''mdat'' \<and>
   getLongAt file1 (Num 206) True = Num 108 \<and>
   Num 206 < Num 206 + getLongAt file1 (Num 206) True"
  by code_simp

text \<open>
  Claim C5. For a \<open>meta\<close> atom at offset \<open>p\<close> the loader requests the range that begins at
  \<open>p + 4 + 8\<close> (and ends 8 bytes later); when the load fails it ends with the error
  callback, otherwise it goes on with the children at offset \<open>p + 12\<close> under the path
  extended by \<open>meta\<close>.
\<close>

theorem loader_meta_skips_next_item_id:
  assumes "\<not> getSize mediaFileReader \<le> Num p"
    and "getLongAt mediaFileReader (Num p) True \<noteq> Num 0"
    and "getLongAt mediaFileReader (Num p) True \<noteq> NaN"
    and "getStringAt mediaFileReader (Num p + Num 4) (Num 4) = ''meta''"
  shows "loadAtom loadRange mediaFileReader (Num p) parentAtomFullName =
         (case loadRange mediaFileReader (Num (p + 4 + 8), Num (p + 4 + 8 + 8)) of
            Inl err \<Rightarrow> Some ([(Num (p + 4 + 8), Num (p + 4 + 8 + 8))], OnError err)
          | Inr loaded \<Rightarrow>
              do { (ranges, result) \<leftarrow>
                     loadAtom loadRange loaded (Num (p + 12))
                       (fullName (Some parentAtomFullName) ''meta'');
                   Some ((Num (p + 4 + 8), Num (p + 4 + 8 + 8)) # ranges, result) })"
  using assms
  by (subst loadAtom.simps) (simp add: Let_def isContainerAtom_def add.commute split: sum.splits)

text \<open>
  The \<open>meta\<close> atom of \<open>file1\<close> is at 32: the range requested starts at 44, not at 40, and the
  children are read from 44.
\<close>

theorem loader_meta_skips_next_item_id_witness:
  "\<not> getSize file1 \<le> Num 32 \<and>
   getLongAt file1 (Num 32) True \<noteq> Num 0 \<and>
   getLongAt file1 (Num 32) True \<noteq> NaN \<and>
   getStringAt file1 (Num 32 + Num 4) (Num 4) = ''meta'' \<and>
   loadAtom alwaysLoaded file1 (Num 32) ''moov.udta'' =
     do { (ranges, result) \<leftarrow> loadAtom alwaysLoaded file1 (Num 44) ''moov.udta.meta'';
          Some ((Num 44, Num 52) # ranges, result) } \<and>
   loadAtom neverLoaded file1 (Num 32) ''moov.udta'' =
     Some ([(Num 44, Num 52)], OnError ''load failed'')"
proof -
  have more: "\<not> getSize file1 \<le> Num 32" by code_simp
  have size: "getLongAt file1 (Num 32) True \<noteq> Num 0" by code_simp
  have valid: "getLongAt file1 (Num 32) True \<noteq> NaN" by code_simp
  have name: "getStringAt file1 (Num 32 + Num 4) (Num 4) = ''meta''" by code_simp
  have path: "fullName (Some ''moov.udta'') ''meta'' = ''moov.udta.meta''"
    by (simp add: fullName_def truthy_def)
  from loader_meta_skips_next_item_id [OF more size valid name, of alwaysLoaded "''moov.udta''"]
  have loaded: "loadAtom alwaysLoaded file1 (Num 32) ''moov.udta'' =
     do { (ranges, result) \<leftarrow> loadAtom alwaysLoaded file1 (Num 44) ''moov.udta.meta'';
          Some ((Num 44, Num 52) # ranges, result) }"
    by (simp add: alwaysLoaded_def path)
  from loader_meta_skips_next_item_id [OF more size valid name, of neverLoaded "''moov.udta''"]
  have failed: "loadAtom neverLoaded file1 (Num 32) ''moov.udta'' =
     Some ([(Num 44, Num 52)], OnError ''load failed'')"
    by (simp add: neverLoaded_def)
  from more size valid name loaded failed show ?thesis by blast
qed

text \<open>
  Claim C6. When the loader stands at or beyond the size of the source, or reads a size
  that is zero or not a number, it returns with the success callback and requests nothing
  more; the error callback is not invoked. When the decoder reads a size of zero it
  returns from that level with the tag object as it is.
\<close>

theorem zero_size_ends_silently:
  "(getSize mediaFileReader \<le> offset \<or>
    getLongAt mediaFileReader offset True = Num 0 \<or>
    getLongAt mediaFileReader offset True = NaN \<longrightarrow>
      loadAtom loadRange mediaFileReader offset parentAtomFullName = Some ([], OnSuccess)) \<and>
   (getLongAt data seek True = Num 0 \<longrightarrow>
      readAtom_while tag data start length' parentPath seek = Some (Inr tag))"
proof (intro conjI impI)
  assume "getSize mediaFileReader \<le> offset \<or>
    getLongAt mediaFileReader offset True = Num 0 \<or>
    getLongAt mediaFileReader offset True = NaN"
  then show "loadAtom loadRange mediaFileReader offset parentAtomFullName = Some ([], OnSuccess)"
    by (subst loadAtom.simps) auto
next
  assume "getLongAt data seek True = Num 0"
  then show "readAtom_while tag data start length' parentPath seek = Some (Inr tag)"
    by (rule readAtom_while_zero)
qed

text \<open>
  The three stop conditions of the loader at the end of \<open>file1\<close>, at the zero size of
  \<open>file4\<close> and at the invalid size of \<open>file5\<close>; the decoder at the zero size of \<open>file4\<close>.
\<close>

theorem zero_size_ends_silently_witness:
  "getSize file1 \<le> Num 314 \<and>
   loadAtom alwaysLoaded file1 (Num 314) ''moov.udta.meta.ilst'' = Some ([], OnSuccess) \<and>
   getLongAt file4 (Num 16) True = Num 0 \<and>
   loadAtom alwaysLoaded file4 (Num 16) [] = Some ([], OnSuccess) \<and>
   getLongAt file5 (Num 16) True = NaN \<and>
   loadAtom alwaysLoaded file5 (Num 16) [] = Some ([], OnSuccess) \<and>
   readAtom_while [] file4 (Num 0) (Num 32) None (Num 16) = Some (Inr []) \<and>
   loadData alwaysLoaded file4 = Some ([(Num 0, Num 7), (Num 16, Num 24)], OnSuccess) \<and>
   loadData alwaysLoaded file5 = Some ([(Num 0, Num 7), (Num 16, Num 24)], OnSuccess) \<and>
   parseData file4 None = Some (Inr [])"
proof -
  have past: "getSize file1 \<le> Num 314" by code_simp
  have zero: "getLongAt file4 (Num 16) True = Num 0" by code_simp
  have invalid: "getLongAt file5 (Num 16) True = NaN" by code_simp
  from past zero_size_ends_silently [of file1 "Num 314" alwaysLoaded "''moov.udta.meta.ilst''"]
  have r1: "loadAtom alwaysLoaded file1 (Num 314) ''moov.udta.meta.ilst'' = Some ([], OnSuccess)"
    by blast
  from zero zero_size_ends_silently [of file4 "Num 16" alwaysLoaded "[]"]
  have r2: "loadAtom alwaysLoaded file4 (Num 16) [] = Some ([], OnSuccess)"
    by blast
  from invalid zero_size_ends_silently [of file5 "Num 16" alwaysLoaded "[]"]
  have r3: "loadAtom alwaysLoaded file5 (Num 16) [] = Some ([], OnSuccess)"
    by blast
  from zero zero_size_ends_silently [of _ _ _ _ file4 "Num 16" "[]" "Num 0" "Num 32" None]
  have r4: "readAtom_while [] file4 (Num 0) (Num 32) None (Num 16) = Some (Inr [])"
    by blast
  have r5: "loadData alwaysLoaded file4 = Some ([(Num 0, Num 7), (Num 16, Num 24)], OnSuccess)"
    by code_simp
  have r6: "loadData alwaysLoaded file5 = Some ([(Num 0, Num 7), (Num 16, Num 24)], OnSuccess)"
    by code_simp
  have r7: "parseData file4 None = Some (Inr [])" by code_simp
  from past zero invalid r1 r2 r3 r4 r5 r6 r7 show ?thesis by blast
qed

end
